theory Spec2Isabelle
  imports Complex_Main "HOL-Library.Log_Nat"
begin

section \<open>Errors\<close>

text \<open>
  The Python exceptions that the modelled code can raise, as values. A function that can
  raise returns \<open>error + 'a\<close>, with \<open>Inl\<close> for the exception.
  \<^item> \<open>ZeroDivisionError\<close>: the true division \<^verbatim>\<open>a / b\<close> with \<open>b = 0\<close> in \<^verbatim>\<open>main\<close>;
  \<^item> \<open>OverflowError\<close>: the true division \<^verbatim>\<open>a / b\<close> of two integers whose quotient is
    too large for a double;
  \<^item> \<open>CollaboratorError\<close>: any exception raised inside a collaborator that
    \<^verbatim>\<open>main\<close> calls and does not catch;
  \<^item> \<open>TypeError\<close>, \<open>ValueError\<close>, \<open>KeyError\<close>, \<open>OSError\<close>: raised by the logger set-up
    and by the formatting of a log record.
\<close>

datatype error =
    ZeroDivisionError
  | OverflowError
  | CollaboratorError
  | TypeError
  | ValueError
  | KeyError
  | OSError

section \<open>The training orchestrator: \<^verbatim>\<open>train_ar.py\<close>\<close>

subsection \<open>Configuration and distributed context\<close>

text \<open>
  The fields of the configuration tree that \<^verbatim>\<open>main\<close> reads, under the names of their
  leaves (\<^verbatim>\<open>config.training.max_train_steps\<close> is \<open>max_train_steps\<close>, and so on). Python's
  integers are unbounded: \<open>int\<close>. \<open>seed\<close> is \<open>None\<close> when the configuration holds no seed;
  \<open>pretokenization\<close> is the value of \<^verbatim>\<open>config.dataset.params.get("pretokenization", "")\<close>,
  which the code tests for truth (a string is true when it is not empty).
\<close>

record config =
  enable_tf32 :: bool
  enable_wandb :: bool
  gradient_accumulation_steps :: int
  mixed_precision :: string
  per_gpu_batch_size :: int
  max_train_steps :: int
  seed :: "int option"
  use_ema :: bool
  output_dir :: string
  experiment_name :: string
  max_train_examples :: int
  pretokenization :: string

text \<open>What \<^verbatim>\<open>main\<close> reads of the \<^verbatim>\<open>Accelerator\<close>.\<close>

record accelerator =
  is_main_process :: bool
  num_processes :: int
  process_index :: nat

subsection \<open>Epoch bookkeeping\<close>

text \<open>
  The three divisions of lines 98 to 107 are \<^verbatim>\<open>math.ceil(a / b)\<close> on two integers. Python's
  \<^verbatim>\<open>/\<close> on integers is the true division: it raises \<^verbatim>\<open>ZeroDivisionError\<close> when \<open>b = 0\<close>, and
  otherwise yields the double nearest to the exact quotient, ties going to the even
  mantissa, or raises \<^verbatim>\<open>OverflowError\<close> when that double would not be finite. A double is
  an integer mantissa of at most 53 bits times a power of two, the exponent of the last
  mantissa bit being at least \<open>- 1074\<close>; the model carries it as the rational number it
  stands for. \<^verbatim>\<open>math.ceil\<close> of a double is its ceiling, an integer, without further
  rounding.
\<close>

text \<open>The quotient \<open>n / d\<close> for \<open>d > 0\<close>, rounded to the nearest integer, ties to even.\<close>

definition round_half_even :: "int \<Rightarrow> int \<Rightarrow> int" where
  "round_half_even n d =
     (let f = n div d; r = n mod d
      in if 2 * r < d then f
         else if d < 2 * r then f + 1
         else if even f then f else f + 1)"

text \<open>
  The binary exponent of a quotient of positive integers: the \<open>k\<close> with
  \<open>2\<^sup>k \<le> n / d < 2\<^sup>k\<^sup>+\<^sup>1\<close>, from the bit lengths of \<open>n\<close> and \<open>d\<close> and one comparison.
\<close>

definition floor_log2 :: "int \<Rightarrow> int \<Rightarrow> int" where
  "floor_log2 n d =
     (let k = bitlen n - bitlen d
      in if (if 0 \<le> k then d * 2 ^ nat k \<le> n else d \<le> n * 2 ^ nat (- k))
         then k else k - 1)"

text \<open>
  \<^verbatim>\<open>a / b\<close> on two integers. With \<open>t\<close> the exponent of the last mantissa bit (52 below the
  exponent of the quotient, and at least \<open>- 1074\<close>, where the subnormal doubles lie), the
  mantissa is the quotient in units of \<open>2\<^sup>t\<close>, rounded; the result is not finite when it
  reaches \<open>2\<^sup>1\<^sup>0\<^sup>2\<^sup>4\<close>.
\<close>

definition true_divide :: "int \<Rightarrow> int \<Rightarrow> error + rat" where
  "true_divide a b =
     (if b = 0 then Inl ZeroDivisionError
      else if a = 0 then Inr 0
      else
        (let n = (if b < 0 then - a else a);
             d = \<bar>b\<bar>;
             t = max (floor_log2 \<bar>n\<bar> d) (- 1022) - 52;
             m = (if 0 \<le> t then round_half_even n (d * 2 ^ nat t)
                  else round_half_even (n * 2 ^ nat (- t)) d)
         in if 1024 < bitlen \<bar>m\<bar> + t then Inl OverflowError
            else Inr (of_int m * 2 powi t)))"

text \<open>\<^verbatim>\<open>math.ceil(a / b)\<close> on two integers.\<close>

definition ceil_truediv :: "int \<Rightarrow> int \<Rightarrow> error + int" where
  "ceil_truediv a b =
     (case true_divide a b of
        Inl e \<Rightarrow> Inl e
      | Inr x \<Rightarrow> Inr \<lceil>x\<rceil>)"

text \<open>The four quantities of lines 98 to 107 of \<^verbatim>\<open>main\<close>, under the source's names.\<close>

record bookkeeping =
  total_batch_size_without_accum :: int
  num_batches :: int
  num_update_steps_per_epoch :: int
  num_train_epochs :: int

definition epoch_bookkeeping :: "config \<Rightarrow> accelerator \<Rightarrow> error + bookkeeping" where
  "epoch_bookkeeping cfg acc =
     (let total = per_gpu_batch_size cfg * num_processes acc in
      case ceil_truediv (max_train_examples cfg) total of
        Inl e \<Rightarrow> Inl e
      | Inr nb \<Rightarrow>
         (case ceil_truediv nb (gradient_accumulation_steps cfg) of
            Inl e \<Rightarrow> Inl e
          | Inr upe \<Rightarrow>
             (case ceil_truediv (max_train_steps cfg) upe of
                Inl e \<Rightarrow> Inl e
              | Inr n \<Rightarrow>
                 Inr \<lparr>total_batch_size_without_accum = total,
                      num_batches = nb,
                      num_update_steps_per_epoch = upe,
                      num_train_epochs = n\<rparr>)))"

subsection \<open>What \<^verbatim>\<open>main\<close> does, as a trace\<close>

text \<open>
  \<^verbatim>\<open>main\<close> is a sequence of calls into libraries and collaborators. The model records
  each call as an event, in the order of the source, so that a run of \<^verbatim>\<open>main\<close> is the list
  of its events together with the way it ended. A run ends early when a division of the
  bookkeeping or one of the two collaborators below raises; every other call is taken to
  return.
\<close>

text \<open>The decimal digits of a natural number: \<^verbatim>\<open>f"{accelerator.process_index}"\<close>.\<close>

function str_nat :: "nat \<Rightarrow> string" where
  "str_nat n =
     (if n < 10 then [''0123456789'' ! n]
      else str_nat (n div 10) @ [''0123456789'' ! (n mod 10)])"
  by pat_completeness auto
termination
  by (relation "measure id") auto

text \<open>The messages of the \<^verbatim>\<open>logger.info\<close> calls and of the \<^verbatim>\<open>accelerator.print\<close> calls.\<close>

datatype info_message =
    SavingConfigTo string string
  | ConfigDump
  | PreparingModel
  | RunningTraining
  | NumTrainingSteps int
  | GradientAccumulationSteps int
  | InstantaneousBatchSize int
  | TotalTrainBatchSize int

datatype print_message =
    EpochStarted int int
  | FinishingTraining int int

text \<open>
  The branch of lines 147 to 149 that the export takes: \<^verbatim>\<open>model.save_pretrained_weight\<close>
  writes the parameters of the model as they are (\<open>OwnParameters\<close>), or after
  \<^verbatim>\<open>ema_model.copy_to(model.parameters())\<close> has overwritten them with the EMA shadow
  (\<open>EmaShadow\<close>). What the parameters hold at that point is the subject of the
  subsection on the parameters of the model below.
\<close>

datatype weights = OwnParameters | EmaShadow

text \<open>
  One constructor for each call of \<^verbatim>\<open>main\<close>. A path built with \<^verbatim>\<open>os.path.join\<close> or
  \<^verbatim>\<open>Path(...) / ...\<close> is kept as its two components (directory, name).
  \<open>AutoResume upe r\<close> is the call of \<^verbatim>\<open>auto_resume\<close> with \<open>num_update_steps_per_epoch = upe\<close>
  and what it returned (\<open>global_step\<close>, \<open>first_epoch\<close>) or raised;
  \<open>TrainOneEpochGenerator g r\<close> is the call of \<^verbatim>\<open>train_one_epoch_generator\<close> with
  \<open>global_step = g\<close> and the \<open>global_step\<close> it returned, or what it raised.
\<close>

datatype event =
    TorchHubSetDir string
  | AllowTF32
  | CudnnBenchmark
  | Makedirs string
  | CreateAccelerator int string string string string
  | SetupLogger string string string
  | InitTrackers string
  | LoggerInfo info_message
  | SaveConfig string string
  | SetSeed int
  | WaitForEveryone
  | LoadTokenizer
  | CreateModelAndLossModule
  | CreateOptimizer
  | CreateLrScheduler
  | CreateDataloader
  | Prepare bool
  | EmaToDevice
  | AutoResume int "error + int \<times> int"
  | AcceleratorPrint print_message
  | TrainOneEpochGenerator int "error + int"
  | SaveCheckpoint int
  | UnwrapModel
  | EmaCopyTo
  | SavePretrainedWeight string weights
  | EndTraining

text \<open>
  The two collaborators whose results steer \<^verbatim>\<open>main\<close>. They live in
  \<^verbatim>\<open>utils/train_utils.py\<close> and act on everything outside \<^verbatim>\<open>main\<close> (model, optimizer,
  dataloader, checkpoint directory): a state of type \<open>'w\<close>, which they take and return.
  Either may raise; \<^verbatim>\<open>main\<close> catches nothing.
  \<^item> \<open>auto_resume w upe\<close> returns the new state, \<open>global_step\<close> and \<open>first_epoch\<close>;
  \<^item> \<open>train_one_epoch_generator w global_step\<close> returns the new state and \<open>global_step\<close>.
\<close>

record 'w collaborators =
  auto_resume :: "'w \<Rightarrow> int \<Rightarrow> error + 'w \<times> int \<times> int"
  train_one_epoch_generator :: "'w \<Rightarrow> int \<Rightarrow> error + 'w \<times> int"

text \<open>Lines 21 to 65: from the hub directory to the first barrier.\<close>

definition startup :: "string \<Rightarrow> config \<Rightarrow> accelerator \<Rightarrow> event list" where
  "startup workspace cfg acc =
     [TorchHubSetDir (workspace @ ''/models/hub'')]
     @ (if enable_tf32 cfg then [AllowTF32] else [])
     @ [CudnnBenchmark,
        Makedirs (output_dir cfg),
        CreateAccelerator (gradient_accumulation_steps cfg) (mixed_precision cfg)
          (if enable_wandb cfg then ''wandb'' else ''tensorboard'') (output_dir cfg) ''logs'',
        SetupLogger ''ARModel'' ''INFO''
          (output_dir cfg @ ''/log'' @ str_nat (process_index acc) @ ''.txt'')]
     @ (if is_main_process acc
        then [InitTrackers (experiment_name cfg),
              LoggerInfo (SavingConfigTo (output_dir cfg) ''config.yaml''),
              SaveConfig (output_dir cfg) ''config.yaml'',
              LoggerInfo ConfigDump]
        else [])
     @ (case seed cfg of None \<Rightarrow> [] | Some s \<Rightarrow> [SetSeed s])
     @ [WaitForEveryone]"

text \<open>Lines 67 to 96: the tokenizer, the model, the optimizer, the data.\<close>

definition construction :: "config \<Rightarrow> event list" where
  "construction cfg =
     [LoadTokenizer, CreateModelAndLossModule, CreateOptimizer, CreateLrScheduler,
      CreateDataloader, LoggerInfo PreparingModel,
      Prepare (pretokenization cfg \<noteq> [])]
     @ (if use_ema cfg then [EmaToDevice] else [])"

text \<open>Lines 109 to 116: the announcement of the run.\<close>

definition announcement :: "config \<Rightarrow> accelerator \<Rightarrow> event list" where
  "announcement cfg acc =
     [LoggerInfo RunningTraining,
      LoggerInfo (NumTrainingSteps (max_train_steps cfg)),
      LoggerInfo (GradientAccumulationSteps (gradient_accumulation_steps cfg)),
      LoggerInfo (InstantaneousBatchSize (per_gpu_batch_size cfg)),
      LoggerInfo (TotalTrainBatchSize
        (per_gpu_batch_size cfg * num_processes acc * gradient_accumulation_steps cfg))]"

text \<open>\<^verbatim>\<open>range(a, b)\<close> on integers: \<open>a, a + 1, \<dots>, b - 1\<close>.\<close>

definition py_range :: "int \<Rightarrow> int \<Rightarrow> int list" where
  "py_range a b = [a..b - 1]"

text \<open>
  Lines 124 to 139: the body of the epoch loop, run for each epoch of the given list in
  turn. \<open>n\<close> is \<open>num_train_epochs\<close>, which the loop prints. The loop ends when the list is
  exhausted, when the collaborator raises, or at the \<^verbatim>\<open>break\<close>.
\<close>

fun epoch_loop ::
  "'w collaborators \<Rightarrow> config \<Rightarrow> int \<Rightarrow> int list \<Rightarrow> 'w \<Rightarrow> int
     \<Rightarrow> event list \<times> (error + 'w \<times> int)" where
  "epoch_loop c cfg n [] w global_step = ([], Inr (w, global_step))"
| "epoch_loop c cfg n (current_epoch # rest) w global_step =
     (case train_one_epoch_generator c w global_step of
        Inl e \<Rightarrow>
          ([AcceleratorPrint (EpochStarted current_epoch (n - 1)),
            TrainOneEpochGenerator global_step (Inl e)],
           Inl e)
      | Inr (w', global_step') \<Rightarrow>
          if global_step' \<ge> max_train_steps cfg
          then ([AcceleratorPrint (EpochStarted current_epoch (n - 1)),
                 TrainOneEpochGenerator global_step (Inr global_step'),
                 AcceleratorPrint (FinishingTraining global_step' (max_train_steps cfg))],
                Inr (w', global_step'))
          else (case epoch_loop c cfg n rest w' global_step' of
                  (tr, r) \<Rightarrow>
                    (AcceleratorPrint (EpochStarted current_epoch (n - 1))
                     # TrainOneEpochGenerator global_step (Inr global_step') # tr,
                     r)))"

text \<open>Lines 145 to 149: the export, on the main process only.\<close>

definition final_export :: "config \<Rightarrow> accelerator \<Rightarrow> event list" where
  "final_export cfg acc =
     (if is_main_process acc
      then [UnwrapModel]
           @ (if use_ema cfg
              then [EmaCopyTo, SavePretrainedWeight (output_dir cfg) EmaShadow]
              else [SavePretrainedWeight (output_dir cfg) OwnParameters])
      else [])"

text \<open>Lines 141 to 150: from the second barrier to the end.\<close>

definition finish :: "config \<Rightarrow> accelerator \<Rightarrow> int \<Rightarrow> event list" where
  "finish cfg acc global_step =
     [WaitForEveryone, SaveCheckpoint global_step] @ final_export cfg acc @ [EndTraining]"

text \<open>The \<^verbatim>\<open>for\<close> statement of line 124: the loop over \<^verbatim>\<open>range(first_epoch, num_train_epochs)\<close>.\<close>

definition training_epochs ::
  "'w collaborators \<Rightarrow> config \<Rightarrow> int \<Rightarrow> int \<Rightarrow> 'w \<Rightarrow> int
     \<Rightarrow> event list \<times> (error + 'w \<times> int)" where
  "training_epochs c cfg n first_epoch w global_step =
     epoch_loop c cfg n (py_range first_epoch n) w global_step"

text \<open>
  \<^verbatim>\<open>main\<close>: the events of the run, and \<open>None\<close> when it returned or \<open>Some e\<close> when \<open>e\<close> was
  raised. \<open>workspace\<close> is the value of the environment variable \<^verbatim>\<open>WORKSPACE\<close> (empty when
  it is not set); \<open>w\<close> is the state that the collaborators find.
\<close>

definition main ::
  "string \<Rightarrow> config \<Rightarrow> accelerator \<Rightarrow> 'w collaborators \<Rightarrow> 'w
     \<Rightarrow> event list \<times> error option" where
  "main workspace cfg acc c w =
     (case epoch_bookkeeping cfg acc of
        Inl e \<Rightarrow> (startup workspace cfg acc @ construction cfg, Some e)
      | Inr bk \<Rightarrow>
         (let before = startup workspace cfg acc @ construction cfg @ announcement cfg acc;
              upe = num_update_steps_per_epoch bk
          in case auto_resume c w upe of
               Inl e \<Rightarrow> (before @ [AutoResume upe (Inl e)], Some e)
             | Inr (w1, global_step, first_epoch) \<Rightarrow>
                (case training_epochs c cfg (num_train_epochs bk) first_epoch w1 global_step of
                   (loop, Inl e) \<Rightarrow>
                     (before @ [AutoResume upe (Inr (global_step, first_epoch))] @ loop,
                      Some e)
                 | (loop, Inr (w2, global_step')) \<Rightarrow>
                     (before @ [AutoResume upe (Inr (global_step, first_epoch))] @ loop
                        @ finish cfg acc global_step',
                      None))))"

section \<open>The logger: \<^verbatim>\<open>utils/logger.py\<close>\<close>

subsection \<open>Strings\<close>



text \<open>
  \<^verbatim>\<open>s.replace(old, new)\<close>: every occurrence of \<open>old\<close> in \<open>s\<close>, found from the left and
  without overlap, becomes \<open>new\<close>; an empty \<open>old\<close> matches before every character and at
  the end.
\<close>

function str_replace :: "string \<Rightarrow> string \<Rightarrow> string \<Rightarrow> string" where
  "str_replace [] old new = (if old = [] then new else [])"
| "str_replace (ch # s) old new =
     (if old = [] then new @ ch # str_replace s old new
      else if take (length old) (ch # s) = old
           then new @ str_replace (drop (length old) (ch # s)) old new
           else ch # str_replace s old new)"
  by pat_completeness auto
termination
  by (relation "measure (\<lambda>(s, old, new). length s)") auto

subsection \<open>\<^verbatim>\<open>termcolor.colored\<close>\<close>

text \<open>
  The library function, with colour output not switched off by the environment:
  \<^verbatim>\<open>'\033[%dm%s'\<close> is applied to the text with the code of the colour, then with the code
  of each attribute in turn, and \<^verbatim>\<open>'\033[0m'\<close> ends the result.
\<close>

datatype color = Grey | Red | Green | Yellow | Blue | Magenta | Cyan | White

datatype attribute = Bold | Dark | Underline | Blink | Reverse | Concealed

fun COLORS :: "color \<Rightarrow> nat" where
  "COLORS Grey = 30"
| "COLORS Red = 31"
| "COLORS Green = 32"
| "COLORS Yellow = 33"
| "COLORS Blue = 34"
| "COLORS Magenta = 35"
| "COLORS Cyan = 36"
| "COLORS White = 37"

fun ATTRIBUTES :: "attribute \<Rightarrow> nat" where
  "ATTRIBUTES Bold = 1"
| "ATTRIBUTES Dark = 2"
| "ATTRIBUTES Underline = 4"
| "ATTRIBUTES Blink = 5"
| "ATTRIBUTES Reverse = 7"
| "ATTRIBUTES Concealed = 8"

definition ESC :: char where
  "ESC = CHR 0x1B"

definition RESET :: string where
  "RESET = ESC # ''[0m''"

definition fmt_str :: "nat \<Rightarrow> string \<Rightarrow> string" where
  "fmt_str code text = ESC # ''['' @ str_nat code @ ''m'' @ text"

definition colored :: "string \<Rightarrow> color \<Rightarrow> attribute list \<Rightarrow> string" where
  "colored text c attrs =
     foldl (\<lambda>t a. fmt_str (ATTRIBUTES a) t) (fmt_str (COLORS c) text) attrs @ RESET"

subsection \<open>Log records and formatters\<close>

text \<open>The levels of \<^verbatim>\<open>logging\<close>.\<close>

definition NOTSET :: nat where "NOTSET = 0"
definition WARNING :: nat where "WARNING = 30"
definition ERROR :: nat where "ERROR = 40"
definition CRITICAL :: nat where "CRITICAL = 50"

text \<open>
  The attributes of a \<^verbatim>\<open>LogRecord\<close> that a format string can name. \<open>record_name\<close> is the
  attribute \<^verbatim>\<open>name\<close>; \<open>asctime\<close> and \<open>message\<close> are set by \<^verbatim>\<open>Formatter.format\<close> before it
  calls \<^verbatim>\<open>formatMessage\<close>.
\<close>

record log_record =
  record_name :: string
  levelno :: nat
  levelname :: string
  asctime :: string
  message :: string

definition record_dict :: "log_record \<Rightarrow> string \<Rightarrow> string option" where
  "record_dict r =
     [''name'' \<mapsto> record_name r, ''levelname'' \<mapsto> levelname r,
      ''asctime'' \<mapsto> asctime r, ''message'' \<mapsto> message r]"

text \<open>
  \<^verbatim>\<open>fmt % values\<close> for a dictionary of strings, as far as the format strings of
  \<^verbatim>\<open>setup_logger\<close> need it: \<^verbatim>\<open>%(key)s\<close> is replaced by the value of the key
  (\<^verbatim>\<open>KeyError\<close> when the key is missing), \<^verbatim>\<open>%%\<close> by a percent sign, other characters
  stand for themselves. Python's other conversions are not modelled: a format that uses
  one is answered with \<^verbatim>\<open>ValueError\<close>, as an incomplete format is.
\<close>

lemma dropWhile_drop_shorter:
  "length (dropWhile P (drop (Suc 0) s)) - 2 < Suc (length s)"
proof -
  have "length (dropWhile P (drop (Suc 0) s)) \<le> length (drop (Suc 0) s)"
    by (rule length_dropWhile_le)
  then show ?thesis
    by simp
qed

function percent_format :: "string \<Rightarrow> (string \<Rightarrow> string option) \<Rightarrow> error + string" where
  "percent_format [] d = Inr []"
| "percent_format (ch # s) d =
     (if ch \<noteq> CHR ''%''
      then (case percent_format s d of Inl e \<Rightarrow> Inl e | Inr t \<Rightarrow> Inr (ch # t))
      else if take 1 s = ''%''
      then (case percent_format (drop 1 s) d of Inl e \<Rightarrow> Inl e | Inr t \<Rightarrow> Inr (ch # t))
      else if take 1 s = ''(''
             \<and> take 2 (dropWhile (\<lambda>k. k \<noteq> CHR '')'') (drop 1 s)) = '')s''
      then (case d (takeWhile (\<lambda>k. k \<noteq> CHR '')'') (drop 1 s)) of
              None \<Rightarrow> Inl KeyError
            | Some v \<Rightarrow>
               (case percent_format (drop 2 (dropWhile (\<lambda>k. k \<noteq> CHR '')'') (drop 1 s))) d of
                  Inl e \<Rightarrow> Inl e
                | Inr t \<Rightarrow> Inr (v @ t)))
      else Inl ValueError)"
  by pat_completeness auto
termination
  by (relation "measure (\<lambda>(s, d). length s)") (auto simp: dropWhile_drop_shorter)

text \<open>
  A formatter: the format string and the date format of \<^verbatim>\<open>logging.Formatter\<close>, and for
  \<^verbatim>\<open>_ColorfulFormatter\<close> its two names as well.
\<close>

datatype formatter =
    Formatter (fmt: string) (datefmt: string)
  | ColorfulFormatter (fmt: string) (datefmt: string) (root_name: string) (abbrev_name: string)

text \<open>
  \<^verbatim>\<open>_ColorfulFormatter.__init__\<close>, with the keyword \<^verbatim>\<open>abbrev_name\<close> given or not.
\<close>

definition ColorfulFormatter_init ::
  "string \<Rightarrow> string \<Rightarrow> string \<Rightarrow> string option \<Rightarrow> formatter" where
  "ColorfulFormatter_init f dfmt name abbrev =
     (let root_name' = name @ ''.'';
          abbrev_name' = (case abbrev of None \<Rightarrow> root_name' | Some a \<Rightarrow> a)
      in ColorfulFormatter f dfmt root_name'
           (if length abbrev_name' \<noteq> 0 then abbrev_name' @ ''.'' else abbrev_name'))"

text \<open>\<^verbatim>\<open>logging.Formatter.formatMessage\<close>: the format string applied to the record.\<close>

definition Formatter_formatMessage :: "formatter \<Rightarrow> log_record \<Rightarrow> error + string" where
  "Formatter_formatMessage f r = percent_format (fmt f) (record_dict r)"

text \<open>
  \<^verbatim>\<open>_ColorfulFormatter.formatMessage\<close>. It assigns to \<^verbatim>\<open>record.name\<close>, so the record is
  returned with the string.
\<close>

definition formatMessage :: "formatter \<Rightarrow> log_record \<Rightarrow> log_record \<times> (error + string)" where
  "formatMessage f r =
     (let r' = r\<lparr>record_name := str_replace (record_name r) (root_name f) (abbrev_name f)\<rparr>
      in (r',
          case Formatter_formatMessage f r' of
            Inl e \<Rightarrow> Inl e
          | Inr log_line \<Rightarrow>
             (if levelno r' = WARNING
              then Inr (colored ''WARNING'' Red [Blink] @ '' '' @ log_line)
              else if levelno r' = ERROR \<or> levelno r' = CRITICAL
              then Inr (colored ''ERROR'' Red [Blink, Underline] @ '' '' @ log_line)
              else Inr log_line)))"

subsection \<open>Loggers, handlers and \<^verbatim>\<open>setup_logger\<close>\<close>

text \<open>
  A handler: a \<^verbatim>\<open>StreamHandler\<close> on \<^verbatim>\<open>sys.stdout\<close> or a \<^verbatim>\<open>FileHandler\<close> on a path, with its
  level and its formatter. A logger holds its level and its handlers in the order in
  which they were added; two handlers of a list are two objects, also when they are
  equal as values.
\<close>

datatype handler =
    StreamHandler (handler_level: nat) (handler_formatter: formatter)
  | FileHandler (baseFilename: string) (handler_level: nat) (handler_formatter: formatter)

record logger =
  level :: nat
  handlers :: "handler list"

text \<open>
  What \<^verbatim>\<open>setup_logger\<close> returns: the logger of a name, or a new
  \<^verbatim>\<open>MultiProcessAdapter\<close> around it. The adapter carries the number under which it was
  created, so that two adapters around one logger are two values.
\<close>

datatype logger_handle =
    Logger string
  | MultiProcessAdapter nat string

text \<open>
  A call of \<^verbatim>\<open>setup_logger\<close>, written with keyword arguments as in \<^verbatim>\<open>main\<close>: the
  arguments in the order in which the call gives them.
\<close>

datatype kwarg =
    Name string
  | LogLevel "string option"
  | Color bool
  | UseAccelerate bool
  | OutputFile "string option"

type_synonym call = "kwarg list"


text \<open>
  The state of the process that \<^verbatim>\<open>setup_logger\<close> reads and writes:
  \<^item> \<open>loggers\<close>: the loggers that \<^verbatim>\<open>logging.getLogger\<close> has created, by name;
  \<^item> \<open>cache\<close>: the entries of \<^verbatim>\<open>functools.lru_cache\<close>, the most recently used first;
  \<^item> \<open>adapters\<close>: how many adapters have been created;
  \<^item> \<open>can_open\<close>: the paths that \<^verbatim>\<open>logging.FileHandler\<close> can open for appending.
\<close>

record logging_state =
  loggers :: "string \<Rightarrow> logger option"
  cache :: "(call \<times> logger_handle) list"
  adapters :: nat
  can_open :: "string \<Rightarrow> bool"


text \<open>
  \<^verbatim>\<open>logging.getLogger(name)\<close>: the empty name and the name \<^verbatim>\<open>root\<close> stand for the root
  logger; a logger that does not exist yet is created with level \<^verbatim>\<open>NOTSET\<close> and no
  handler.
\<close>

definition logger_key :: "string \<Rightarrow> string" where
  "logger_key name = (if name = [] \<or> name = ''root'' then ''root'' else name)"

definition getLogger :: "logging_state \<Rightarrow> string \<Rightarrow> logger" where
  "getLogger s name =
     (case loggers s (logger_key name) of
        None \<Rightarrow> \<lparr>level = NOTSET, handlers = []\<rparr>
      | Some lg \<Rightarrow> lg)"



definition colorful_formatter :: "string \<Rightarrow> formatter" where
  "colorful_formatter name =
     ColorfulFormatter_init
       (colored ''[%(asctime)s %(name)s]: '' Green [] @ ''%(message)s'')
       ''%m/%d %H:%M:%S'' name None"















section \<open>Observations, the resolver of the specification, and example runs\<close>

subsection \<open>What a trace holds\<close>

text \<open>The calls of \<^verbatim>\<open>train_one_epoch_generator\<close> in a trace: argument and outcome.\<close>

fun train_call :: "event \<Rightarrow> (int \<times> (error + int)) list" where
  "train_call (TrainOneEpochGenerator g r) = [(g, r)]"
| "train_call ev = []"

definition train_calls :: "event list \<Rightarrow> (int \<times> (error + int)) list" where
  "train_calls tr = concat (map train_call tr)"

text \<open>The values of \<open>global_step\<close> that the epochs of a trace returned, in order.\<close>

fun epoch_return :: "event \<Rightarrow> int list" where
  "epoch_return (TrainOneEpochGenerator g (Inr s)) = [s]"
| "epoch_return ev = []"

definition epoch_returns :: "event list \<Rightarrow> int list" where
  "epoch_returns tr = concat (map epoch_return tr)"

text \<open>The epochs that a trace announces with \<^verbatim>\<open>Epoch e/n started.\<close>\<close>

fun epoch_started :: "event \<Rightarrow> int list" where
  "epoch_started (AcceleratorPrint (EpochStarted e n)) = [e]"
| "epoch_started ev = []"

definition epochs_started :: "event list \<Rightarrow> int list" where
  "epochs_started tr = concat (map epoch_started tr)"

text \<open>
  The events of the two blocks under \<^verbatim>\<open>if accelerator.is_main_process\<close> (lines 54 to 59
  and 145 to 149).
\<close>

fun primary_only :: "event \<Rightarrow> bool" where
  "primary_only (InitTrackers nm) = True"
| "primary_only (LoggerInfo (SavingConfigTo d f)) = True"
| "primary_only (LoggerInfo ConfigDump) = True"
| "primary_only (SaveConfig d f) = True"
| "primary_only UnwrapModel = True"
| "primary_only EmaCopyTo = True"
| "primary_only (SavePretrainedWeight d wts) = True"
| "primary_only ev = False"

text \<open>
  The events that write the artifacts of the end of the run: the final checkpoint and the
  export.
\<close>

fun final_artifact :: "event \<Rightarrow> bool" where
  "final_artifact (SaveCheckpoint g) = True"
| "final_artifact UnwrapModel = True"
| "final_artifact EmaCopyTo = True"
| "final_artifact (SavePretrainedWeight d wts) = True"
| "final_artifact ev = False"

text \<open>The events of the epoch loop.\<close>

fun loop_event :: "event \<Rightarrow> bool" where
  "loop_event (AcceleratorPrint m) = True"
| "loop_event (TrainOneEpochGenerator g r) = True"
| "loop_event ev = False"

text \<open>
  What lies between the first barrier of a trace and its first call of
  \<^verbatim>\<open>train_one_epoch_generator\<close>.
\<close>

definition between_barrier_and_training :: "event list \<Rightarrow> event list" where
  "between_barrier_and_training tr =
     takeWhile (\<lambda>ev. train_call ev = [])
       (drop 1 (dropWhile (\<lambda>ev. ev \<noteq> WaitForEveryone) tr))"

subsection \<open>The auto-resume resolver\<close>

text \<open>
  Modelled from the spec: \<^verbatim>\<open>auto_resume\<close> of \<^verbatim>\<open>utils/train_utils.py\<close>, which is not among
  the sources. Section 4.3 of the specification: with no checkpoint it returns
  \<open>(global_step = 0, first_epoch = 0)\<close>; with a checkpoint saved at \<open>global_step = S\<close> it
  restores the state and returns \<open>first_epoch = S // updates_per_epoch\<close>; a checkpoint that
  cannot be read is fatal in strict mode, which is the mode \<^verbatim>\<open>main\<close> asks for. \<open>listing\<close>
  reads the checkpoint directory off the state, \<open>restore\<close> loads the checkpoint into it.
\<close>

datatype checkpoint_listing = NoCheckpoint | Checkpoint int | Unreadable

definition auto_resume_spec ::
  "('w \<Rightarrow> checkpoint_listing) \<Rightarrow> ('w \<Rightarrow> 'w) \<Rightarrow> 'w \<Rightarrow> int \<Rightarrow> error + 'w \<times> int \<times> int" where
  "auto_resume_spec listing restore w updates_per_epoch =
     (case listing w of
        NoCheckpoint \<Rightarrow> Inr (w, 0, 0)
      | Checkpoint S \<Rightarrow>
          if updates_per_epoch = 0 then Inl ZeroDivisionError
          else Inr (restore w, S, S div updates_per_epoch)
      | Unreadable \<Rightarrow> Inl CollaboratorError)"

subsection \<open>Example runs\<close>

text \<open>
  The configuration of the specification's end-to-end scenario: 1000 examples, 10 per
  process, 2 processes, 5 accumulation steps, a budget of 3 steps.
\<close>

definition scenario_config :: config where
  "scenario_config =
     \<lparr>enable_tf32 = True, enable_wandb = False, gradient_accumulation_steps = 5,
      mixed_precision = ''bf16'', per_gpu_batch_size = 10, max_train_steps = 3,
      seed = Some 42, use_ema = True, output_dir = ''out'',
      experiment_name = ''alitok_ar'', max_train_examples = 1000,
      pretokenization = ''''\<rparr>"

definition scenario_accelerator :: "bool \<Rightarrow> nat \<Rightarrow> accelerator" where
  "scenario_accelerator primary rank =
     \<lparr>is_main_process = primary, num_processes = 2, process_index = rank\<rparr>"

text \<open>
  A second configuration: the same data, and a budget of 25 steps, which is two epochs
  and a half.
\<close>

definition long_config :: config where
  "long_config = scenario_config\<lparr>max_train_steps := 25\<rparr>"

text \<open>
  A configuration whose budget is \<open>2\<^sup>5\<^sup>3 + 1\<close> steps, with one example, batches of one and
  no accumulation; and a distributed context of a single process.
\<close>

definition huge_budget_config :: config where
  "huge_budget_config =
     scenario_config\<lparr>gradient_accumulation_steps := 1, per_gpu_batch_size := 1,
       max_train_steps := 9007199254740993, max_train_examples := 1\<rparr>"

definition single_process :: accelerator where
  "single_process = \<lparr>is_main_process = True, num_processes = 1, process_index = 0\<rparr>"

text \<open>
  A step loop as the specification describes it: an epoch performs the updates of an
  epoch, one step each, and stops early when the budget is reached; \<open>global_step\<close> never
  goes back.
\<close>

definition steady_epoch :: "int \<Rightarrow> int \<Rightarrow> 'w \<Rightarrow> int \<Rightarrow> error + 'w \<times> int" where
  "steady_epoch updates_per_epoch budget w global_step =
     Inr (w, max global_step (min (global_step + updates_per_epoch) budget))"

text \<open>
  The collaborators of the example runs: the resolver of the specification on a state
  that is the checkpoint listing itself, and the steady step loop.
\<close>

definition example_collaborators :: "config \<Rightarrow> checkpoint_listing collaborators" where
  "example_collaborators cfg =
     \<lparr>auto_resume = auto_resume_spec (\<lambda>w. w) (\<lambda>w. w),
      train_one_epoch_generator = steady_epoch 10 (max_train_steps cfg)\<rparr>"

text \<open>
  Collaborators whose step loop performs 5 updates in an epoch, where the bookkeeping
  of the example configurations expects 10 (a dataloader that holds fewer examples than
  \<open>max_train_examples\<close> says).
\<close>

definition short_epoch_collaborators :: "config \<Rightarrow> checkpoint_listing collaborators" where
  "short_epoch_collaborators cfg =
     \<lparr>auto_resume = auto_resume_spec (\<lambda>w. w) (\<lambda>w. w),
      train_one_epoch_generator = steady_epoch 5 (max_train_steps cfg)\<rparr>"





subsection \<open>The parameters of the model and the EMA shadow\<close>









section \<open>Properties of the epoch bookkeeping\<close>

lemma ceiling_div_bounds:
  fixes a b :: int
  assumes "0 < b"
  shows "(\<lceil>real_of_int a / real_of_int b\<rceil> - 1) * b < a"
    and "a \<le> \<lceil>real_of_int a / real_of_int b\<rceil> * b"
proof -
  let ?c = "\<lceil>real_of_int a / real_of_int b\<rceil>"
  have b: "0 < real_of_int b" using assms by simp
  have "real_of_int ?c - 1 < real_of_int a / real_of_int b"
    by linarith
  then have "(real_of_int ?c - 1) * real_of_int b < real_of_int a"
    using b pos_less_divide_eq [of "real_of_int b" "real_of_int ?c - 1" "real_of_int a"]
    by blast
  then have "real_of_int ((?c - 1) * b) < real_of_int a"
    by simp
  then show "(?c - 1) * b < a"
    by (simp only: of_int_less_iff)
  have "real_of_int a / real_of_int b \<le> real_of_int ?c"
    by linarith
  then have "real_of_int a \<le> real_of_int ?c * real_of_int b"
    using b pos_divide_le_eq [of "real_of_int b" "real_of_int a" "real_of_int ?c"]
    by blast
  then have "real_of_int a \<le> real_of_int (?c * b)"
    by simp
  then show "a \<le> ?c * b"
    by (simp only: of_int_le_iff)
qed

lemma ceiling_div_pos:
  fixes a b :: int
  assumes "0 < a" "0 < b"
  shows "0 < \<lceil>real_of_int a / real_of_int b\<rceil>"
proof -
  have "0 < real_of_int a / real_of_int b"
    using assms by simp
  then show ?thesis
    by (simp only: zero_less_ceiling)
qed

lemma ceiling_div_le:
  fixes a b :: int
  assumes "0 < a" "0 < b"
  shows "\<lceil>real_of_int a / real_of_int b\<rceil> \<le> a"
proof -
  let ?c = "\<lceil>real_of_int a / real_of_int b\<rceil>"
  have "0 < ?c" using assms by (rule ceiling_div_pos)
  then have "(?c - 1) * 1 \<le> (?c - 1) * b"
    using assms(2) by (intro mult_left_mono) simp_all
  with ceiling_div_bounds(1) [OF assms(2), of a] show ?thesis by simp
qed

subsection \<open>The true division below \<open>2\<^sup>5\<^sup>3\<close>\<close>

lemma round_half_even_le:
  assumes "0 < d" and "n \<le> z * d"
  shows "round_half_even n d \<le> z"
proof -
  define f where "f = n div d"
  define r where "r = n mod d"
  have n: "n = f * d + r" by (simp add: f_def r_def)
  have r: "0 \<le> r" "r < d" using assms(1) by (simp_all add: r_def)
  have "f * d \<le> z * d" using n r assms(2) by linarith
  then have fz: "f \<le> z" using assms(1) by (simp add: mult_le_cancel_right)
  show ?thesis
  proof (cases "f = z")
    case True
    from n assms(2) r have "r = 0" unfolding True by linarith
    with assms(1) True show ?thesis
      by (simp add: round_half_even_def Let_def f_def [symmetric] r_def [symmetric])
  next
    case False
    with fz have "f + 1 \<le> z" by simp
    then show ?thesis
      by (simp add: round_half_even_def Let_def f_def [symmetric] r_def [symmetric])
  qed
qed

lemma round_half_even_ge:
  assumes "0 < d" and "(2 * z + 1) * d < 2 * n"
  shows "z + 1 \<le> round_half_even n d"
proof -
  define f where "f = n div d"
  define r where "r = n mod d"
  have n: "n = f * d + r" by (simp add: f_def r_def)
  have r: "0 \<le> r" "r < d" using assms(1) by (simp_all add: r_def)
  have "(2 * z + 1) * d < 2 * (f * d) + 2 * d"
    using assms(2) n r by linarith
  also have "\<dots> = (2 * f + 2) * d" by (simp add: algebra_simps)
  finally have "2 * z + 1 < 2 * f + 2" using assms(1) by (simp add: mult_less_cancel_right)
  then have zf: "z \<le> f" by simp
  show ?thesis
  proof (cases "f = z")
    case True
    have "(2 * z + 1) * d = 2 * (z * d) + d" by (simp add: algebra_simps)
    with assms(2) n have "d < 2 * r"
      unfolding True by linarith
    then show ?thesis
      using True by (simp add: round_half_even_def Let_def f_def [symmetric] r_def [symmetric])
  next
    case False
    with zf have "z + 1 \<le> f" by simp
    then show ?thesis
      by (simp add: round_half_even_def Let_def f_def [symmetric] r_def [symmetric])
  qed
qed

lemma floor_log2_bounds:
  assumes "0 < a" and "0 < b"
  shows "0 \<le> floor_log2 a b \<Longrightarrow> b * 2 ^ nat (floor_log2 a b) \<le> a"
    and "floor_log2 a b < 0 \<Longrightarrow> a * 2 ^ nat (- floor_log2 a b - 1) < b"
proof -
  define la where "la = bitlen a"
  define lb where "lb = bitlen b"
  have a: "2 ^ nat (la - 1) \<le> a" "a < 2 ^ nat la"
    using bitlen_bounds [OF assms(1)] by (simp_all add: la_def)
  have b: "2 ^ nat (lb - 1) \<le> b" "b < 2 ^ nat lb"
    using bitlen_bounds [OF assms(2)] by (simp_all add: lb_def)
  have la: "1 \<le> la" using assms(1) by (simp add: la_def bitlen_alt_def)
  have lb: "1 \<le> lb" using assms(2) by (simp add: lb_def bitlen_alt_def)
  define k where "k = la - lb"
  define test where "test = (if 0 \<le> k then b * 2 ^ nat k \<le> a else b \<le> a * 2 ^ nat (- k))"
  have e: "floor_log2 a b = (if test then k else k - 1)"
    by (simp add: floor_log2_def Let_def test_def k_def la_def lb_def)
  {
    assume nonneg: "0 \<le> floor_log2 a b"
    show "b * 2 ^ nat (floor_log2 a b) \<le> a"
    proof (cases test)
      case True
      with e have ek: "floor_log2 a b = k" by simp
      with nonneg have "0 \<le> k" by simp
      with True show ?thesis unfolding ek by (simp add: test_def)
    next
      case False
      with e have ek: "floor_log2 a b = k - 1" by simp
      with nonneg have k1: "1 \<le> k" by simp
      have "b * 2 ^ nat (k - 1) < 2 ^ nat lb * 2 ^ nat (k - 1)"
        using b(2) by simp
      also have "\<dots> = 2 ^ nat (la - 1)"
        using k1 lb by (simp add: k_def flip: power_add nat_add_distrib)
      also have "\<dots> \<le> a" by (rule a(1))
      finally show ?thesis unfolding ek by simp
    qed
  }
  {
    assume neg: "floor_log2 a b < 0"
    show "a * 2 ^ nat (- floor_log2 a b - 1) < b"
    proof (cases test)
      case True
      with e have ek: "floor_log2 a b = k" by simp
      with neg have k: "k < 0" by simp
      have "a * 2 ^ nat (- k - 1) < 2 ^ nat la * 2 ^ nat (- k - 1)"
        using a(2) by simp
      also have "\<dots> = 2 ^ nat (lb - 1)"
        using k la by (simp add: k_def flip: power_add nat_add_distrib)
      also have "\<dots> \<le> b" by (rule b(1))
      finally show ?thesis unfolding ek by simp
    next
      case False
      with e have ek: "floor_log2 a b = k - 1" by simp
      with neg have k: "k \<le> 0" by simp
      from False k have "a * 2 ^ nat (- k) < b"
        by (cases "k = 0") (simp_all add: test_def)
      moreover have "- (k - 1) - 1 = - k" by simp
      ultimately show ?thesis unfolding ek by simp
    qed
  }
qed

lemma floor_log2_range:
  assumes "0 < a" "a < 2 ^ 53" "0 < b" "b < 2 ^ 53"
  shows "floor_log2 a b \<le> 52" and "- 53 \<le> floor_log2 a b"
proof -
  show "floor_log2 a b \<le> 52"
  proof (rule ccontr)
    assume "\<not> floor_log2 a b \<le> 52"
    then have big: "53 \<le> nat (floor_log2 a b)" and nonneg: "0 \<le> floor_log2 a b"
      by simp_all
    have "(2 :: int) ^ 53 \<le> 2 ^ nat (floor_log2 a b)"
      using big by (intro power_increasing) simp_all
    also have "\<dots> \<le> b * 2 ^ nat (floor_log2 a b)"
      using assms(3) by simp
    also have "\<dots> \<le> a"
      using floor_log2_bounds(1) [OF assms(1,3) nonneg] .
    finally show False using assms(2) by simp
  qed
  show "- 53 \<le> floor_log2 a b"
  proof (rule ccontr)
    assume "\<not> - 53 \<le> floor_log2 a b"
    then have big: "53 \<le> nat (- floor_log2 a b - 1)" and neg: "floor_log2 a b < 0"
      by simp_all
    have "(2 :: int) ^ 53 \<le> 2 ^ nat (- floor_log2 a b - 1)"
      using big by (intro power_increasing) simp_all
    also have "\<dots> \<le> a * 2 ^ nat (- floor_log2 a b - 1)"
      using assms(1) by simp
    also have "\<dots> < b"
      using floor_log2_bounds(2) [OF assms(1,3) neg] .
    finally show False using assms(4) by simp
  qed
qed

lemma ceil_truediv_exact:
  assumes a: "0 < a" "a < 2 ^ 53" and b: "0 < b" "b < 2 ^ 53"
  shows "ceil_truediv a b = Inr \<lceil>real_of_int a / real_of_int b\<rceil>"
proof -
  define e where "e = floor_log2 a b"
  define k where "k = nat (52 - e)"
  define K :: int where "K = 2 ^ k"
  define c where "c = \<lceil>real_of_int a / real_of_int b\<rceil>"
  define m where "m = round_half_even (a * K) b"
  have e: "e \<le> 52" "- 53 \<le> e"
    using floor_log2_range [OF a b] by (simp_all add: e_def)
  have K: "0 < K" by (simp add: K_def)
  have lo: "(c - 1) * b < a" and hi: "a \<le> c * b"
    using ceiling_div_bounds [OF b(1), of a] by (simp_all add: c_def)
  have c1: "1 \<le> c"
  proof (rule ccontr)
    assume "\<not> 1 \<le> c"
    then have "c \<le> 0" by simp
    then have "c * b \<le> 0" using b(1) by (simp add: mult_le_0_iff)
    with hi a(1) show False by simp
  qed
  have ca: "c \<le> a"
  proof -
    have "(c - 1) * 1 \<le> (c - 1) * b"
      using c1 b(1) by (intro mult_left_mono) simp_all
    with lo show ?thesis by simp
  qed
  have twoK: "b < 2 * K"
  proof (cases "0 < e")
    case True
    then have "0 \<le> floor_log2 a b" by (simp add: e_def)
    from floor_log2_bounds(1) [OF a(1) b(1) this]
    have "b * 2 ^ nat e \<le> a" by (simp add: e_def)
    also have "a < 2 ^ 53" by (rule a(2))
    also have "(2 :: int) ^ 53 = (2 * K) * 2 ^ nat e"
    proof -
      have s: "Suc k + nat e = 53" using True e by (simp add: k_def)
      have "(2 :: int) ^ (Suc k + nat e) = (2 * K) * 2 ^ nat e"
        by (simp add: K_def power_add)
      then show ?thesis by (simp only: s)
    qed
    finally show ?thesis by simp
  next
    case False
    then have "52 \<le> k" by (simp add: k_def)
    then have "(2 :: int) ^ 52 \<le> 2 ^ k"
      by (intro power_increasing) simp_all
    then have "(2 :: int) ^ 53 \<le> 2 * K" by (simp add: K_def)
    with b(2) show ?thesis by simp
  qed
  have up: "m \<le> c * K"
  proof -
    have "a * K \<le> (c * b) * K"
      using hi K by (intro mult_right_mono) simp_all
    then have "a * K \<le> (c * K) * b" by (simp add: algebra_simps)
    with b(1) show ?thesis unfolding m_def by (rule round_half_even_le)
  qed
  have down: "(c - 1) * K + 1 \<le> m"
  proof -
    have "((c - 1) * b + 1) * K \<le> a * K"
      using lo K by (intro mult_right_mono) simp_all
    then have "(c - 1) * b * K + K \<le> a * K" by (simp add: algebra_simps)
    then have "2 * ((c - 1) * K * b) + 2 * K \<le> 2 * (a * K)" by (simp add: algebra_simps)
    with twoK have "2 * ((c - 1) * K * b) + b < 2 * (a * K)" by linarith
    then have "(2 * ((c - 1) * K) + 1) * b < 2 * (a * K)" by (simp add: algebra_simps)
    with b(1) show ?thesis unfolding m_def by (rule round_half_even_ge)
  qed
  have mpos: "0 < m"
  proof -
    have "0 \<le> (c - 1) * K" using c1 K by simp
    with down show ?thesis by linarith
  qed
  have t: "max (floor_log2 \<bar>a\<bar> b) (- 1022) - 52 = - int k"
    using a(1) e by (simp add: e_def [symmetric] k_def)
  have m: "(if 0 \<le> - int k then round_half_even a (b * 2 ^ nat (- int k))
            else round_half_even (a * 2 ^ nat (- (- int k))) b) = m"
    by (cases "k = 0") (simp_all add: m_def K_def)
  have small: "\<not> 1024 < bitlen \<bar>m\<bar> + (- int k)"
  proof -
    have "k \<le> 105" using e by (simp add: k_def)
    then have "K \<le> 2 ^ 105" unfolding K_def by (intro power_increasing) simp_all
    have "m \<le> c * K" by (rule up)
    also have "\<dots> \<le> a * K" using ca K by (intro mult_right_mono) simp_all
    also have "\<dots> \<le> a * 2 ^ 105" using \<open>K \<le> 2 ^ 105\<close> a(1) by (intro mult_left_mono) simp_all
    also have "\<dots> < 2 ^ 53 * 2 ^ 105" using a(2) by simp
    finally have "m < 2 ^ nat 158" by simp
    then have "bitlen m \<le> 158" by (simp only: bitlen_le_iff_power) simp
    with mpos show ?thesis by simp
  qed
  have n: "(if b < 0 then - a else a) = a" "\<bar>b\<bar> = b"
    using b(1) by simp_all
  have quotient: "true_divide a b = Inr (of_int m * 2 powi (- int k))"
    unfolding true_divide_def Let_def n t m
    using a(1) b(1) small by simp
  have x: "(of_int m * 2 powi (- int k) :: rat) = of_int m / of_int K"
    by (simp add: K_def power_int_minus field_simps)
  have "\<lceil>(of_int m :: rat) / of_int K\<rceil> = c"
  proof (rule ceiling_unique)
    have "(c - 1) * K < m" using down by linarith
    then have "(of_int ((c - 1) * K) :: rat) < of_int m"
      by (simp only: of_int_less_iff)
    then have "(of_int c - 1) * (of_int K :: rat) < of_int m" by simp
    then show "(of_int c :: rat) - 1 < of_int m / of_int K"
      using K by (simp add: pos_less_divide_eq)
    have "(of_int m :: rat) \<le> of_int (c * K)"
      using up by (simp only: of_int_le_iff)
    then have "(of_int m :: rat) \<le> of_int c * of_int K" by simp
    then show "(of_int m :: rat) / of_int K \<le> of_int c"
      using K by (simp add: pos_divide_le_eq)
  qed
  then show ?thesis
    by (simp add: ceil_truediv_def quotient x c_def)
qed

lemma ceil_truediv_zero: "ceil_truediv a 0 = Inl ZeroDivisionError"
  by (simp add: ceil_truediv_def true_divide_def)

subsection \<open>The four quantities\<close>

text \<open>
  C3, as the claim states it, fails: the quotient is rounded to a double before the
  ceiling is taken. With \<open>max_train_steps = 2\<^sup>5\<^sup>3 + 1\<close> and one update per epoch, all four
  conditions of the claim hold, the quotient \<open>2\<^sup>5\<^sup>3 + 1\<close> is rounded to the double \<open>2\<^sup>5\<^sup>3\<close>,
  and \<^verbatim>\<open>main\<close> computes \<open>num_train_epochs = 2\<^sup>5\<^sup>3\<close>: this is not the ceiling of the
  quotient, and \<open>num_train_epochs * num_update_steps_per_epoch\<close> is below
  \<open>max_train_steps\<close>.
\<close>

theorem epoch_count_rounded_to_double:
  "0 < max_train_steps huge_budget_config
   \<and> 1 \<le> gradient_accumulation_steps huge_budget_config
   \<and> 0 < per_gpu_batch_size huge_budget_config
   \<and> 0 < max_train_examples huge_budget_config
   \<and> epoch_bookkeeping huge_budget_config single_process =
       Inr \<lparr>total_batch_size_without_accum = 1, num_batches = 1,
            num_update_steps_per_epoch = 1, num_train_epochs = 9007199254740992\<rparr>
   \<and> 9007199254740992 * 1 < max_train_steps huge_budget_config
   \<and> \<lceil>real_of_int (max_train_steps huge_budget_config) / real_of_int 1\<rceil>
       = 9007199254740993"
  by code_simp

text \<open>
  C3, amended. For a configuration with \<open>max_train_steps > 0\<close>,
  \<open>gradient_accumulation_steps \<ge> 1\<close>, \<open>per_gpu_batch_size > 0\<close> and \<open>max_train_examples > 0\<close>,
  on a distributed context of at least one process, and with \<open>max_train_steps\<close>,
  \<open>gradient_accumulation_steps\<close>, \<open>max_train_examples\<close> and
  \<open>per_gpu_batch_size * num_processes\<close> all below \<open>2\<^sup>5\<^sup>3\<close>, the bookkeeping raises nothing
  and computes
  \<open>total_batch_size_without_accum = per_gpu_batch_size * num_processes\<close>,
  \<open>num_batches = \<lceil>max_train_examples / total_batch_size_without_accum\<rceil>\<close>,
  \<open>num_update_steps_per_epoch = \<lceil>num_batches / gradient_accumulation_steps\<rceil>\<close> and
  \<open>num_train_epochs = \<lceil>max_train_steps / num_update_steps_per_epoch\<rceil>\<close>, the ceilings being
  those of the exact quotients; the updates per epoch are positive, and the epochs
  satisfy the ceiling property:
  \<open>num_train_epochs * num_update_steps_per_epoch \<ge> max_train_steps\<close> and
  \<open>(num_train_epochs - 1) * num_update_steps_per_epoch < max_train_steps\<close>.
\<close>

theorem epoch_bookkeeping_ceiling:
  assumes steps: "0 < max_train_steps cfg" "max_train_steps cfg < 2 ^ 53"
    and accum: "1 \<le> gradient_accumulation_steps cfg" "gradient_accumulation_steps cfg < 2 ^ 53"
    and batch: "0 < per_gpu_batch_size cfg"
    and examples: "0 < max_train_examples cfg" "max_train_examples cfg < 2 ^ 53"
    and processes: "1 \<le> num_processes acc"
    and batch_total: "per_gpu_batch_size cfg * num_processes acc < 2 ^ 53"
  shows "\<exists>bk. epoch_bookkeeping cfg acc = Inr bk
    \<and> total_batch_size_without_accum bk = per_gpu_batch_size cfg * num_processes acc
    \<and> num_batches bk =
        \<lceil>real_of_int (max_train_examples cfg) / real_of_int (total_batch_size_without_accum bk)\<rceil>
    \<and> num_update_steps_per_epoch bk =
        \<lceil>real_of_int (num_batches bk) / real_of_int (gradient_accumulation_steps cfg)\<rceil>
    \<and> num_train_epochs bk =
        \<lceil>real_of_int (max_train_steps cfg) / real_of_int (num_update_steps_per_epoch bk)\<rceil>
    \<and> 0 < num_update_steps_per_epoch bk
    \<and> max_train_steps cfg \<le> num_train_epochs bk * num_update_steps_per_epoch bk
    \<and> (num_train_epochs bk - 1) * num_update_steps_per_epoch bk < max_train_steps cfg"
proof -
  define total where "total = per_gpu_batch_size cfg * num_processes acc"
  define nb where "nb = \<lceil>real_of_int (max_train_examples cfg) / real_of_int total\<rceil>"
  define upe where
    "upe = \<lceil>real_of_int nb / real_of_int (gradient_accumulation_steps cfg)\<rceil>"
  define n where "n = \<lceil>real_of_int (max_train_steps cfg) / real_of_int upe\<rceil>"
  have total: "0 < total"
    unfolding total_def using batch processes by (simp add: zero_less_mult_iff)
  have total_small: "total < 2 ^ 53"
    unfolding total_def by (rule batch_total)
  have nb: "0 < nb"
    unfolding nb_def using examples(1) total by (rule ceiling_div_pos)
  have "nb \<le> max_train_examples cfg"
    unfolding nb_def using examples(1) total by (rule ceiling_div_le)
  with examples(2) have nb_small: "nb < 2 ^ 53"
    by simp
  have gas: "0 < gradient_accumulation_steps cfg"
    using accum(1) by simp
  have upe: "0 < upe"
    unfolding upe_def using nb gas by (rule ceiling_div_pos)
  have "upe \<le> nb"
    unfolding upe_def using nb gas by (rule ceiling_div_le)
  with nb_small have upe_small: "upe < 2 ^ 53"
    by simp
  have first: "ceil_truediv (max_train_examples cfg) total = Inr nb"
    unfolding nb_def using examples total total_small by (rule ceil_truediv_exact)
  have second: "ceil_truediv nb (gradient_accumulation_steps cfg) = Inr upe"
    unfolding upe_def using nb nb_small gas accum(2) by (rule ceil_truediv_exact)
  have third: "ceil_truediv (max_train_steps cfg) upe = Inr n"
    unfolding n_def using steps upe upe_small by (rule ceil_truediv_exact)
  have run: "epoch_bookkeeping cfg acc =
      Inr \<lparr>total_batch_size_without_accum = total, num_batches = nb,
           num_update_steps_per_epoch = upe, num_train_epochs = n\<rparr>"
    by (simp add: epoch_bookkeeping_def Let_def total_def [symmetric] first second third)
  have lo: "(n - 1) * upe < max_train_steps cfg"
    unfolding n_def using upe by (rule ceiling_div_bounds(1))
  have hi: "max_train_steps cfg \<le> n * upe"
    unfolding n_def using upe by (rule ceiling_div_bounds(2))
  show ?thesis
    using run lo hi upe
    by (simp add: total_def nb_def upe_def n_def)
qed

lemma scenario_divisions:
  "ceil_truediv 1000 20 = Inr 50"
  "ceil_truediv 50 5 = Inr 10"
  "ceil_truediv 3 10 = Inr 1"
  "ceil_truediv 25 10 = Inr 3"
  by code_simp+

lemma scenario_bookkeeping:
  "epoch_bookkeeping scenario_config (scenario_accelerator p r) =
     Inr \<lparr>total_batch_size_without_accum = 20, num_batches = 50,
          num_update_steps_per_epoch = 10, num_train_epochs = 1\<rparr>"
  by (simp add: epoch_bookkeeping_def scenario_divisions scenario_config_def
      scenario_accelerator_def)

theorem epoch_bookkeeping_ceiling_witness:
  "epoch_bookkeeping scenario_config (scenario_accelerator True 0) =
     Inr \<lparr>total_batch_size_without_accum = 20, num_batches = 50,
          num_update_steps_per_epoch = 10, num_train_epochs = 1\<rparr>
   \<and> max_train_steps scenario_config \<le> 1 * 10
   \<and> (1 - 1) * 10 < max_train_steps scenario_config"
proof -
  have h1: "0 < max_train_steps scenario_config"
    and h2: "max_train_steps scenario_config < 2 ^ 53"
    and h3: "1 \<le> gradient_accumulation_steps scenario_config"
    and h4: "gradient_accumulation_steps scenario_config < 2 ^ 53"
    and h5: "0 < per_gpu_batch_size scenario_config"
    and h6: "0 < max_train_examples scenario_config"
    and h7: "max_train_examples scenario_config < 2 ^ 53"
    and h8: "1 \<le> num_processes (scenario_accelerator True 0)"
    and h9: "per_gpu_batch_size scenario_config * num_processes (scenario_accelerator True 0)
               < 2 ^ 53"
    by (simp_all add: scenario_config_def scenario_accelerator_def)
  from epoch_bookkeeping_ceiling [OF h1 h2 h3 h4 h5 h6 h7 h8 h9]
  obtain bk where bk: "epoch_bookkeeping scenario_config (scenario_accelerator True 0) = Inr bk"
    and hi: "max_train_steps scenario_config
               \<le> num_train_epochs bk * num_update_steps_per_epoch bk"
    and lo: "(num_train_epochs bk - 1) * num_update_steps_per_epoch bk
               < max_train_steps scenario_config"
    by blast
  from bk have "bk = \<lparr>total_batch_size_without_accum = 20, num_batches = 50,
          num_update_steps_per_epoch = 10, num_train_epochs = 1\<rparr>"
    by (simp add: scenario_bookkeeping)
  with bk hi lo show ?thesis
    by simp
qed

section \<open>Properties of the epoch loop\<close>

declare str_nat.simps [simp del]

lemma train_calls_simps [simp]:
  "train_calls [] = []"
  "train_calls (ev # tr) = train_call ev @ train_calls tr"
  "train_calls (tr @ tr') = train_calls tr @ train_calls tr'"
  by (simp_all add: train_calls_def)

lemma epoch_returns_simps [simp]:
  "epoch_returns [] = []"
  "epoch_returns (ev # tr) = epoch_return ev @ epoch_returns tr"
  "epoch_returns (tr @ tr') = epoch_returns tr @ epoch_returns tr'"
  by (simp_all add: epoch_returns_def)

lemma epochs_started_simps [simp]:
  "epochs_started [] = []"
  "epochs_started (ev # tr) = epoch_started ev @ epochs_started tr"
  "epochs_started (tr @ tr') = epochs_started tr @ epochs_started tr'"
  by (simp_all add: epochs_started_def)

lemma epoch_loop_raise:
  "train_one_epoch_generator c w g = Inl e \<Longrightarrow>
   epoch_loop c cfg n (ce # rest) w g =
     ([AcceleratorPrint (EpochStarted ce (n - 1)), TrainOneEpochGenerator g (Inl e)], Inl e)"
  by simp

lemma epoch_loop_break:
  "train_one_epoch_generator c w g = Inr (w', g') \<Longrightarrow> max_train_steps cfg \<le> g' \<Longrightarrow>
   epoch_loop c cfg n (ce # rest) w g =
     ([AcceleratorPrint (EpochStarted ce (n - 1)), TrainOneEpochGenerator g (Inr g'),
       AcceleratorPrint (FinishingTraining g' (max_train_steps cfg))],
      Inr (w', g'))"
  by simp

lemma epoch_loop_continue:
  "train_one_epoch_generator c w g = Inr (w', g') \<Longrightarrow> \<not> max_train_steps cfg \<le> g' \<Longrightarrow>
   epoch_loop c cfg n (ce # rest) w g =
     (AcceleratorPrint (EpochStarted ce (n - 1)) # TrainOneEpochGenerator g (Inr g')
        # fst (epoch_loop c cfg n rest w' g'),
      snd (epoch_loop c cfg n rest w' g'))"
  by (simp add: split_beta)

lemma epoch_loop_cases:
  obtains (raise) e where "train_one_epoch_generator c w g = Inl e"
  | (break) w' g' where "train_one_epoch_generator c w g = Inr (w', g')"
      "max_train_steps cfg \<le> g'"
  | (continue) w' g' where "train_one_epoch_generator c w g = Inr (w', g')"
      "\<not> max_train_steps cfg \<le> g'"
proof (cases "train_one_epoch_generator c w g")
  case (Inl e)
  then show ?thesis by (rule raise)
next
  case (Inr p)
  obtain w' g' where "p = (w', g')" by (cases p)
  with Inr have "train_one_epoch_generator c w g = Inr (w', g')" by simp
  then show ?thesis
    by (cases "max_train_steps cfg \<le> g'") (auto intro: break continue)
qed

lemma epoch_loop_below_budget:
  "list_all (\<lambda>s. s < max_train_steps cfg)
     (butlast (epoch_returns (fst (epoch_loop c cfg n es w g))))"
proof (induction es arbitrary: w g)
  case Nil
  show ?case by simp
next
  case (Cons ce es)
  show ?case
  proof (cases rule: epoch_loop_cases [where c = c and w = w and g = g and cfg = cfg])
    case (raise e)
    show ?thesis by (simp add: epoch_loop_raise [OF raise] del: epoch_loop.simps)
  next
    case (break w' g')
    show ?thesis by (simp add: epoch_loop_break [OF break] del: epoch_loop.simps)
  next
    case (continue w' g')
    show ?thesis
      using Cons.IH [of w' g'] continue(2)
      by (simp add: epoch_loop_continue [OF continue] del: epoch_loop.simps)
  qed
qed

lemma epoch_loop_append:
  "list_ex (\<lambda>s. max_train_steps cfg \<le> s) (epoch_returns (fst (epoch_loop c cfg n es w g)))
   \<Longrightarrow> epoch_loop c cfg n (es @ later) w g = epoch_loop c cfg n es w g"
proof (induction es arbitrary: w g)
  case Nil
  then show ?case by simp
next
  case (Cons ce es)
  show ?case
  proof (cases rule: epoch_loop_cases [where c = c and w = w and g = g and cfg = cfg])
    case (raise e)
    show ?thesis by (simp add: epoch_loop_raise [OF raise] del: epoch_loop.simps)
  next
    case (break w' g')
    show ?thesis by (simp add: epoch_loop_break [OF break] del: epoch_loop.simps)
  next
    case (continue w' g')
    from Cons.prems continue(2)
    have "list_ex (\<lambda>s. max_train_steps cfg \<le> s)
            (epoch_returns (fst (epoch_loop c cfg n es w' g')))"
      by (simp add: epoch_loop_continue [OF continue] del: epoch_loop.simps)
    then have "epoch_loop c cfg n (es @ later) w' g' = epoch_loop c cfg n es w' g'"
      by (rule Cons.IH)
    then show ?thesis
      by (simp add: epoch_loop_continue [OF continue] del: epoch_loop.simps)
  qed
qed

lemma epoch_loop_last_return:
  "list_ex (\<lambda>s. max_train_steps cfg \<le> s) (epoch_returns (fst (epoch_loop c cfg n es w g)))
   \<Longrightarrow> \<exists>w'. snd (epoch_loop c cfg n es w g)
            = Inr (w', last (epoch_returns (fst (epoch_loop c cfg n es w g))))"
proof (induction es arbitrary: w g)
  case Nil
  then show ?case by simp
next
  case (Cons ce es)
  show ?case
  proof (cases rule: epoch_loop_cases [where c = c and w = w and g = g and cfg = cfg])
    case (raise e)
    from Cons.prems show ?thesis by (simp add: epoch_loop_raise [OF raise] del: epoch_loop.simps)
  next
    case (break w' g')
    show ?thesis by (simp add: epoch_loop_break [OF break] del: epoch_loop.simps)
  next
    case (continue w' g')
    from Cons.prems continue(2)
    have ex: "list_ex (\<lambda>s. max_train_steps cfg \<le> s)
            (epoch_returns (fst (epoch_loop c cfg n es w' g')))"
      by (simp add: epoch_loop_continue [OF continue] del: epoch_loop.simps)
    then have ne: "epoch_returns (fst (epoch_loop c cfg n es w' g')) \<noteq> []"
      by auto
    from Cons.IH [OF ex] ne show ?thesis
      by (simp add: epoch_loop_continue [OF continue] del: epoch_loop.simps)
  qed
qed

lemma epoch_loop_print_only:
  "snd (epoch_loop c cfg n es w g) = snd (epoch_loop c cfg n' es w g)
   \<and> train_calls (fst (epoch_loop c cfg n es w g))
       = train_calls (fst (epoch_loop c cfg n' es w g))"
proof (induction es arbitrary: w g)
  case Nil
  show ?case by simp
next
  case (Cons ce es)
  show ?case
  proof (cases rule: epoch_loop_cases [where c = c and w = w and g = g and cfg = cfg])
    case (raise e)
    show ?thesis by (simp add: epoch_loop_raise [OF raise] del: epoch_loop.simps)
  next
    case (break w' g')
    show ?thesis by (simp add: epoch_loop_break [OF break] del: epoch_loop.simps)
  next
    case (continue w' g')
    show ?thesis
      using Cons.IH [of w' g']
      by (simp add: epoch_loop_continue [OF continue] del: epoch_loop.simps)
  qed
qed

lemma epoch_loop_returns_print_only:
  "epoch_returns (fst (epoch_loop c cfg n es w g))
     = epoch_returns (fst (epoch_loop c cfg n' es w g))"
proof (induction es arbitrary: w g)
  case Nil
  show ?case by simp
next
  case (Cons ce es)
  show ?case
  proof (cases rule: epoch_loop_cases [where c = c and w = w and g = g and cfg = cfg])
    case (raise e)
    show ?thesis by (simp add: epoch_loop_raise [OF raise] del: epoch_loop.simps)
  next
    case (break w' g')
    show ?thesis by (simp add: epoch_loop_break [OF break] del: epoch_loop.simps)
  next
    case (continue w' g')
    show ?thesis
      using Cons.IH [of w' g']
      by (simp add: epoch_loop_continue [OF continue] del: epoch_loop.simps)
  qed
qed

lemma py_range_extend:
  assumes "n \<le> n'"
  shows "\<exists>later. py_range a n' = py_range a n @ later"
proof (cases "a < n")
  case True
  then have "a \<le> n - 1" "n - 1 \<le> n' - 1" using assms by simp_all
  then have "[a..n' - 1] = [a..n - 1] @ [n - 1 + 1..n' - 1]"
    by (rule upto_split2)
  then show ?thesis unfolding py_range_def by blast
next
  case False
  then show ?thesis by (simp add: py_range_def)
qed

lemma py_range_step: "a < b \<Longrightarrow> py_range a b = a # py_range (a + 1) b"
  by (simp add: py_range_def upto_rec1)

lemma py_range_empty: "b \<le> a \<Longrightarrow> py_range a b = []"
  by (simp add: py_range_def)

lemma training_epochs_unfold:
  "training_epochs c cfg n first_epoch w g =
     (if n \<le> first_epoch then ([], Inr (w, g))
      else (case train_one_epoch_generator c w g of
              Inl e \<Rightarrow>
                ([AcceleratorPrint (EpochStarted first_epoch (n - 1)),
                  TrainOneEpochGenerator g (Inl e)],
                 Inl e)
            | Inr (w', g') \<Rightarrow>
                if max_train_steps cfg \<le> g'
                then ([AcceleratorPrint (EpochStarted first_epoch (n - 1)),
                       TrainOneEpochGenerator g (Inr g'),
                       AcceleratorPrint (FinishingTraining g' (max_train_steps cfg))],
                      Inr (w', g'))
                else (AcceleratorPrint (EpochStarted first_epoch (n - 1))
                        # TrainOneEpochGenerator g (Inr g')
                        # fst (training_epochs c cfg n (first_epoch + 1) w' g'),
                      snd (training_epochs c cfg n (first_epoch + 1) w' g'))))"
proof (cases "n \<le> first_epoch")
  case True
  then show ?thesis
    by (simp add: training_epochs_def py_range_empty)
next
  case False
  then have range: "py_range first_epoch n = first_epoch # py_range (first_epoch + 1) n"
    by (simp add: py_range_step)
  show ?thesis
  proof (cases rule: epoch_loop_cases [where c = c and w = w and g = g and cfg = cfg])
    case (raise e)
    with False show ?thesis
      unfolding training_epochs_def range
      by (simp add: epoch_loop_raise [OF raise] del: epoch_loop.simps)
  next
    case (break w' g')
    with False show ?thesis
      unfolding training_epochs_def range
      by (simp add: epoch_loop_break [OF break] del: epoch_loop.simps)
  next
    case (continue w' g')
    with False show ?thesis
      unfolding training_epochs_def range
      by (simp add: epoch_loop_continue [OF continue] del: epoch_loop.simps)
  qed
qed

lemma epoch_loop_exhausted:
  "\<not> list_ex (\<lambda>s. max_train_steps cfg \<le> s) (epoch_returns (fst (epoch_loop c cfg n es w g)))
   \<Longrightarrow> snd (epoch_loop c cfg n es w g) = Inr (w2, g2)
   \<Longrightarrow> epochs_started (fst (epoch_loop c cfg n es w g)) = es
       \<and> g2 = last (g # epoch_returns (fst (epoch_loop c cfg n es w g)))"
proof (induction es arbitrary: w g)
  case Nil
  then show ?case by simp
next
  case (Cons ce es)
  show ?case
  proof (cases rule: epoch_loop_cases [where c = c and w = w and g = g and cfg = cfg])
    case (raise e)
    from Cons.prems(2) show ?thesis
      by (simp add: epoch_loop_raise [OF raise] del: epoch_loop.simps)
  next
    case (break w' g')
    from Cons.prems(1) break(2) show ?thesis
      by (simp add: epoch_loop_break [OF break] del: epoch_loop.simps)
  next
    case (continue w' g')
    from Cons.prems(1)
    have none: "\<not> list_ex (\<lambda>s. max_train_steps cfg \<le> s)
        (epoch_returns (fst (epoch_loop c cfg n es w' g')))"
      by (simp add: epoch_loop_continue [OF continue] del: epoch_loop.simps)
    from Cons.prems(2)
    have ret: "snd (epoch_loop c cfg n es w' g') = Inr (w2, g2)"
      by (simp add: epoch_loop_continue [OF continue] del: epoch_loop.simps)
    from Cons.IH [OF none ret] show ?thesis
      by (simp add: epoch_loop_continue [OF continue] del: epoch_loop.simps)
  qed
qed

text \<open>
  C1, as the claim states it, fails: the budget check is not the only way out of the
  loop, and whether it is taken depends on \<open>num_train_epochs\<close>. With a budget of 25
  steps the bookkeeping derives 10 updates per epoch and 3 epochs; when the step loop
  performs 5 updates in an epoch, the loop over \<^verbatim>\<open>range(0, 3)\<close> runs its three epochs and
  ends at \<open>global_step = 15\<close>, below the budget, without the message of the
  \<^verbatim>\<open>break\<close>, and \<^verbatim>\<open>main\<close> saves the final checkpoint at step 15. With 5 epochs instead
  of 3 the same loop ends at step 25.
\<close>

theorem epoch_loop_ends_below_budget:
  "epoch_bookkeeping long_config (scenario_accelerator True 0) =
     Inr \<lparr>total_batch_size_without_accum = 20, num_batches = 50,
          num_update_steps_per_epoch = 10, num_train_epochs = 3\<rparr>
   \<and> max_train_steps long_config = 25
   \<and> training_epochs (short_epoch_collaborators long_config) long_config 3 0 NoCheckpoint 0 =
       ([AcceleratorPrint (EpochStarted 0 2), TrainOneEpochGenerator 0 (Inr 5),
         AcceleratorPrint (EpochStarted 1 2), TrainOneEpochGenerator 5 (Inr 10),
         AcceleratorPrint (EpochStarted 2 2), TrainOneEpochGenerator 10 (Inr 15)],
        Inr (NoCheckpoint, 15))
   \<and> snd (training_epochs (short_epoch_collaborators long_config) long_config
          5 0 NoCheckpoint 0) = Inr (NoCheckpoint, 25)
   \<and> drop 26 (fst (main [] long_config (scenario_accelerator True 0)
          (short_epoch_collaborators long_config) NoCheckpoint)) =
       [AcceleratorPrint (EpochStarted 0 2), TrainOneEpochGenerator 0 (Inr 5),
        AcceleratorPrint (EpochStarted 1 2), TrainOneEpochGenerator 5 (Inr 10),
        AcceleratorPrint (EpochStarted 2 2), TrainOneEpochGenerator 10 (Inr 15),
        WaitForEveryone, SaveCheckpoint 15,
        UnwrapModel, EmaCopyTo, SavePretrainedWeight ''out'' EmaShadow, EndTraining]"
  by code_simp

text \<open>
  C1, amended. The loop of line 124 over \<^verbatim>\<open>range(first_epoch, num_train_epochs)\<close> does
  nothing when the range is empty; otherwise it announces the epoch, calls the step loop
  with the running \<open>global_step\<close>, and then ends at once when the step loop has raised,
  ends at once with the message of the \<^verbatim>\<open>break\<close> when the returned \<open>global_step\<close> is at
  least \<open>max_train_steps\<close>, and goes on with the next epoch from the returned
  \<open>global_step\<close> otherwise. So each epoch but the last one run returned a \<open>global_step\<close>
  below \<open>max_train_steps\<close>. When an epoch has met the budget, the loop returns that
  epoch's \<open>global_step\<close> and \<open>num_train_epochs\<close> plays no further part: with any larger
  number of epochs the loop makes the same calls of the step loop and returns the same
  result. When no epoch has met the budget and none has raised, the loop has run every
  epoch of the range and returns the \<open>global_step\<close> of the last (the one it started with
  when the range is empty), which is below \<open>max_train_steps\<close> unless it started there.
\<close>

theorem epoch_loop_budget_exit:
  "training_epochs c cfg n first_epoch w g =
     (if n \<le> first_epoch then ([], Inr (w, g))
      else (case train_one_epoch_generator c w g of
              Inl e \<Rightarrow>
                ([AcceleratorPrint (EpochStarted first_epoch (n - 1)),
                  TrainOneEpochGenerator g (Inl e)],
                 Inl e)
            | Inr (w', g') \<Rightarrow>
                if max_train_steps cfg \<le> g'
                then ([AcceleratorPrint (EpochStarted first_epoch (n - 1)),
                       TrainOneEpochGenerator g (Inr g'),
                       AcceleratorPrint (FinishingTraining g' (max_train_steps cfg))],
                      Inr (w', g'))
                else (AcceleratorPrint (EpochStarted first_epoch (n - 1))
                        # TrainOneEpochGenerator g (Inr g')
                        # fst (training_epochs c cfg n (first_epoch + 1) w' g'),
                      snd (training_epochs c cfg n (first_epoch + 1) w' g'))))
   \<and> list_all (\<lambda>s. s < max_train_steps cfg)
       (butlast (epoch_returns (fst (training_epochs c cfg n first_epoch w g))))
   \<and> (list_ex (\<lambda>s. max_train_steps cfg \<le> s)
         (epoch_returns (fst (training_epochs c cfg n first_epoch w g)))
      \<longrightarrow> (\<exists>w'. snd (training_epochs c cfg n first_epoch w g)
                  = Inr (w', last (epoch_returns (fst (training_epochs c cfg n first_epoch w g)))))
        \<and> (\<forall>n'. n \<le> n' \<longrightarrow>
              snd (training_epochs c cfg n' first_epoch w g)
                = snd (training_epochs c cfg n first_epoch w g)
            \<and> train_calls (fst (training_epochs c cfg n' first_epoch w g))
                = train_calls (fst (training_epochs c cfg n first_epoch w g))))
   \<and> (\<not> list_ex (\<lambda>s. max_train_steps cfg \<le> s)
           (epoch_returns (fst (training_epochs c cfg n first_epoch w g)))
      \<longrightarrow> (\<forall>w' g'. snd (training_epochs c cfg n first_epoch w g) = Inr (w', g') \<longrightarrow>
             epochs_started (fst (training_epochs c cfg n first_epoch w g))
               = py_range first_epoch n
           \<and> g' = last (g # epoch_returns (fst (training_epochs c cfg n first_epoch w g)))))"
proof (intro conjI impI allI)
  show "training_epochs c cfg n first_epoch w g =
     (if n \<le> first_epoch then ([], Inr (w, g))
      else (case train_one_epoch_generator c w g of
              Inl e \<Rightarrow>
                ([AcceleratorPrint (EpochStarted first_epoch (n - 1)),
                  TrainOneEpochGenerator g (Inl e)],
                 Inl e)
            | Inr (w', g') \<Rightarrow>
                if max_train_steps cfg \<le> g'
                then ([AcceleratorPrint (EpochStarted first_epoch (n - 1)),
                       TrainOneEpochGenerator g (Inr g'),
                       AcceleratorPrint (FinishingTraining g' (max_train_steps cfg))],
                      Inr (w', g'))
                else (AcceleratorPrint (EpochStarted first_epoch (n - 1))
                        # TrainOneEpochGenerator g (Inr g')
                        # fst (training_epochs c cfg n (first_epoch + 1) w' g'),
                      snd (training_epochs c cfg n (first_epoch + 1) w' g'))))"
    by (rule training_epochs_unfold)
next
  show "list_all (\<lambda>s. s < max_train_steps cfg)
     (butlast (epoch_returns (fst (training_epochs c cfg n first_epoch w g))))"
    unfolding training_epochs_def by (rule epoch_loop_below_budget)
next
  assume met: "list_ex (\<lambda>s. max_train_steps cfg \<le> s)
         (epoch_returns (fst (training_epochs c cfg n first_epoch w g)))"
  then show "\<exists>w'. snd (training_epochs c cfg n first_epoch w g)
                  = Inr (w', last (epoch_returns (fst (training_epochs c cfg n first_epoch w g))))"
    unfolding training_epochs_def by (rule epoch_loop_last_return)
  fix n' :: int
  assume le: "n \<le> n'"
  then obtain later where later: "py_range first_epoch n' = py_range first_epoch n @ later"
    using py_range_extend by blast
  from met have met': "list_ex (\<lambda>s. max_train_steps cfg \<le> s)
         (epoch_returns (fst (epoch_loop c cfg n' (py_range first_epoch n) w g)))"
    unfolding training_epochs_def
    using epoch_loop_returns_print_only [of c cfg n "py_range first_epoch n" w g n']
    by simp
  have same: "epoch_loop c cfg n' (py_range first_epoch n') w g
                = epoch_loop c cfg n' (py_range first_epoch n) w g"
    unfolding later using met' by (rule epoch_loop_append)
  show "snd (training_epochs c cfg n' first_epoch w g)
                = snd (training_epochs c cfg n first_epoch w g)"
    unfolding training_epochs_def same
    using epoch_loop_print_only [of c cfg n' "py_range first_epoch n" w g n] by blast
  show "train_calls (fst (training_epochs c cfg n' first_epoch w g))
                = train_calls (fst (training_epochs c cfg n first_epoch w g))"
    unfolding training_epochs_def same
    using epoch_loop_print_only [of c cfg n' "py_range first_epoch n" w g n] by blast
next
  fix w' g'
  assume none: "\<not> list_ex (\<lambda>s. max_train_steps cfg \<le> s)
           (epoch_returns (fst (training_epochs c cfg n first_epoch w g)))"
    and ret: "snd (training_epochs c cfg n first_epoch w g) = Inr (w', g')"
  from epoch_loop_exhausted [OF none [unfolded training_epochs_def]
      ret [unfolded training_epochs_def]]
  show "epochs_started (fst (training_epochs c cfg n first_epoch w g))
               = py_range first_epoch n"
    and "g' = last (g # epoch_returns (fst (training_epochs c cfg n first_epoch w g)))"
    unfolding training_epochs_def by simp_all
qed

lemma long_config_budget: "max_train_steps long_config = 25"
  by (simp add: long_config_def scenario_config_def)

lemma long_run:
  "training_epochs (example_collaborators long_config) long_config 3 0 NoCheckpoint 0 =
     ([AcceleratorPrint (EpochStarted 0 2), TrainOneEpochGenerator 0 (Inr 10),
       AcceleratorPrint (EpochStarted 1 2), TrainOneEpochGenerator 10 (Inr 20),
       AcceleratorPrint (EpochStarted 2 2), TrainOneEpochGenerator 20 (Inr 25),
       AcceleratorPrint (FinishingTraining 25 25)],
      Inr (NoCheckpoint, 25))"
  by code_simp

lemma short_run:
  "training_epochs (short_epoch_collaborators long_config) long_config 3 0 NoCheckpoint 0 =
     ([AcceleratorPrint (EpochStarted 0 2), TrainOneEpochGenerator 0 (Inr 5),
       AcceleratorPrint (EpochStarted 1 2), TrainOneEpochGenerator 5 (Inr 10),
       AcceleratorPrint (EpochStarted 2 2), TrainOneEpochGenerator 10 (Inr 15)],
      Inr (NoCheckpoint, 15))"
  by code_simp

lemma py_range_0_3: "py_range 0 3 = [0, 1, 2]"
  by code_simp

theorem epoch_loop_budget_exit_witness:
  "training_epochs (example_collaborators long_config) long_config 3 0 NoCheckpoint 0 =
     ([AcceleratorPrint (EpochStarted 0 2), TrainOneEpochGenerator 0 (Inr 10),
       AcceleratorPrint (EpochStarted 1 2), TrainOneEpochGenerator 10 (Inr 20),
       AcceleratorPrint (EpochStarted 2 2), TrainOneEpochGenerator 20 (Inr 25),
       AcceleratorPrint (FinishingTraining 25 25)],
      Inr (NoCheckpoint, 25))
   \<and> list_ex (\<lambda>s. (25 :: int) \<le> s) [10, 20, 25]
   \<and> (3 :: int) \<le> 5
   \<and> snd (training_epochs (example_collaborators long_config) long_config 5 0 NoCheckpoint 0)
       = Inr (NoCheckpoint, 25)
   \<and> train_calls (fst (training_epochs (example_collaborators long_config) long_config
        5 0 NoCheckpoint 0))
       = [(0, Inr 10), (10, Inr 20), (20, Inr 25)]
   \<and> training_epochs (short_epoch_collaborators long_config) long_config 3 0 NoCheckpoint 0 =
       ([AcceleratorPrint (EpochStarted 0 2), TrainOneEpochGenerator 0 (Inr 5),
         AcceleratorPrint (EpochStarted 1 2), TrainOneEpochGenerator 5 (Inr 10),
         AcceleratorPrint (EpochStarted 2 2), TrainOneEpochGenerator 10 (Inr 15)],
        Inr (NoCheckpoint, 15))
   \<and> \<not> list_ex (\<lambda>s. (25 :: int) \<le> s) [5, 10, 15]
   \<and> epochs_started
        (fst (training_epochs (short_epoch_collaborators long_config) long_config
           3 0 NoCheckpoint 0)) = [0, 1, 2]
   \<and> (15 :: int) = last (0 # [5, 10, 15])"
proof -
  have met: "list_ex (\<lambda>s. (25 :: int) \<le> s) [10, 20, 25]"
    by simp
  have le: "(3 :: int) \<le> 5"
    by simp
  have none: "\<not> list_ex (\<lambda>s. (25 :: int) \<le> s) [5, 10, 15]"
    by simp
  from epoch_loop_budget_exit
    [of "example_collaborators long_config" long_config 3 0 NoCheckpoint 0,
      THEN conjunct2, THEN conjunct2, THEN conjunct1]
  have full: "\<forall>n'. 3 \<le> n' \<longrightarrow>
      snd (training_epochs (example_collaborators long_config) long_config n' 0 NoCheckpoint 0)
        = Inr (NoCheckpoint, 25)
      \<and> train_calls (fst (training_epochs (example_collaborators long_config) long_config
            n' 0 NoCheckpoint 0))
        = [(0, Inr 10), (10, Inr 20), (20, Inr 25)]"
    unfolding long_run long_config_budget using met by simp
  from epoch_loop_budget_exit
    [of "short_epoch_collaborators long_config" long_config 3 0 NoCheckpoint 0,
      THEN conjunct2, THEN conjunct2, THEN conjunct2]
  have short: "epochs_started
        (fst (training_epochs (short_epoch_collaborators long_config) long_config
           3 0 NoCheckpoint 0)) = py_range 0 3
      \<and> (15 :: int) = last (0 # [5, 10, 15])"
    unfolding short_run long_config_budget using none by simp
  from full le short show ?thesis
    using long_run short_run met none by (simp add: py_range_0_3)
qed

text \<open>
  The count of the epochs ends the loop below the budget only when the step loop falls
  behind the bookkeeping. When every epoch advances
  \<open>global_step\<close> by at least \<open>upe\<close> updates unless it meets the budget, when the loop
  starts at an epoch \<open>e\<close> with \<open>e * upe \<le> global_step\<close> (as
  \<open>first_epoch = global_step // upe\<close> does), and when \<open>n * upe\<close> covers the budget (the
  ceiling property of the bookkeeping), a loop that runs an epoch at all returns with
  the budget met.
\<close>

lemma epoch_loop_reaches_budget:
  assumes progress: "\<forall>w g. \<exists>w' g'. train_one_epoch_generator c w g = Inr (w', g')
            \<and> (g + upe \<le> g' \<or> max_train_steps cfg \<le> g')"
    and enough: "max_train_steps cfg \<le> n * upe"
  shows "e < n \<Longrightarrow> e * upe \<le> g \<Longrightarrow>
     \<exists>w' g'. snd (epoch_loop c cfg p (py_range e n) w g) = Inr (w', g')
        \<and> max_train_steps cfg \<le> g'"
proof (induction "nat (n - e)" arbitrary: e w g)
  case 0
  then show ?case by simp
next
  case (Suc k)
  from Suc.prems(1) have range: "py_range e n = e # py_range (e + 1) n"
    by (simp add: py_range_def upto_rec1)
  from progress obtain w' g' where
    step: "train_one_epoch_generator c w g = Inr (w', g')"
    and adv: "g + upe \<le> g' \<or> max_train_steps cfg \<le> g'"
    by blast
  show ?case
  proof (cases "max_train_steps cfg \<le> g'")
    case True
    then show ?thesis
      unfolding range by (simp add: epoch_loop_break [OF step True] del: epoch_loop.simps)
  next
    case False
    with adv have "g + upe \<le> g'" by simp
    with Suc.prems(2) have inv: "(e + 1) * upe \<le> g'"
      by (simp add: algebra_simps)
    have "e + 1 < n"
    proof (rule ccontr)
      assume "\<not> e + 1 < n"
      with Suc.prems(1) have "n = e + 1" by simp
      with inv enough False show False by simp
    qed
    moreover from Suc.hyps(2) have "k = nat (n - (e + 1))" by simp
    ultimately have "\<exists>w'' g''. snd (epoch_loop c cfg p (py_range (e + 1) n) w' g')
        = Inr (w'', g'') \<and> max_train_steps cfg \<le> g''"
      using inv Suc.hyps(1) by blast
    then show ?thesis
      unfolding range
      by (simp add: epoch_loop_continue [OF step False] del: epoch_loop.simps)
  qed
qed

lemma steady_epoch_progress:
  "\<forall>w g. \<exists>w' g'. steady_epoch upe mx w g = Inr (w', g') \<and> (g + upe \<le> g' \<or> mx \<le> g')"
  by (auto simp: steady_epoch_def)

section \<open>Properties of \<^verbatim>\<open>main\<close>\<close>

subsection \<open>The shape of a run\<close>

lemma epoch_loop_events:
  "list_all loop_event (fst (epoch_loop c cfg n es w g))"
proof (induction es arbitrary: w g)
  case Nil
  show ?case by simp
next
  case (Cons ce es)
  show ?case
  proof (cases rule: epoch_loop_cases [where c = c and w = w and g = g and cfg = cfg])
    case (raise e)
    show ?thesis by (simp add: epoch_loop_raise [OF raise] del: epoch_loop.simps)
  next
    case (break w' g')
    show ?thesis by (simp add: epoch_loop_break [OF break] del: epoch_loop.simps)
  next
    case (continue w' g')
    show ?thesis
      using Cons.IH [of w' g']
      by (simp add: epoch_loop_continue [OF continue] del: epoch_loop.simps)
  qed
qed

lemma main_cases:
  obtains
    (bookkeeping_raises) e where
      "epoch_bookkeeping cfg acc = Inl e"
      "main workspace cfg acc c w = (startup workspace cfg acc @ construction cfg, Some e)"
  | (resume_raises) bk e where
      "epoch_bookkeeping cfg acc = Inr bk"
      "auto_resume c w (num_update_steps_per_epoch bk) = Inl e"
      "main workspace cfg acc c w =
         (startup workspace cfg acc @ construction cfg @ announcement cfg acc
            @ [AutoResume (num_update_steps_per_epoch bk) (Inl e)], Some e)"
  | (loop_raises) bk w1 g first_epoch loop e where
      "epoch_bookkeeping cfg acc = Inr bk"
      "auto_resume c w (num_update_steps_per_epoch bk) = Inr (w1, g, first_epoch)"
      "training_epochs c cfg (num_train_epochs bk) first_epoch w1 g = (loop, Inl e)"
      "main workspace cfg acc c w =
         (startup workspace cfg acc @ construction cfg @ announcement cfg acc
            @ [AutoResume (num_update_steps_per_epoch bk) (Inr (g, first_epoch))] @ loop,
          Some e)"
  | (completes) bk w1 g first_epoch loop w2 g' where
      "epoch_bookkeeping cfg acc = Inr bk"
      "auto_resume c w (num_update_steps_per_epoch bk) = Inr (w1, g, first_epoch)"
      "training_epochs c cfg (num_train_epochs bk) first_epoch w1 g = (loop, Inr (w2, g'))"
      "main workspace cfg acc c w =
         (startup workspace cfg acc @ construction cfg @ announcement cfg acc
            @ [AutoResume (num_update_steps_per_epoch bk) (Inr (g, first_epoch))] @ loop
            @ finish cfg acc g',
          None)"
proof (cases "epoch_bookkeeping cfg acc")
  case (Inl e)
  then have "main workspace cfg acc c w = (startup workspace cfg acc @ construction cfg, Some e)"
    by (simp add: main_def)
  with Inl show ?thesis by (rule bookkeeping_raises)
next
  case bk: (Inr bk)
  show ?thesis
  proof (cases "auto_resume c w (num_update_steps_per_epoch bk)")
    case (Inl e)
    with bk have "main workspace cfg acc c w =
         (startup workspace cfg acc @ construction cfg @ announcement cfg acc
            @ [AutoResume (num_update_steps_per_epoch bk) (Inl e)], Some e)"
      by (simp add: main_def)
    with bk Inl show ?thesis by (rule resume_raises)
  next
    case (Inr p)
    obtain w1 g first_epoch where p: "p = (w1, g, first_epoch)"
      by (cases p)
    from Inr p have ar: "auto_resume c w (num_update_steps_per_epoch bk) = Inr (w1, g, first_epoch)"
      by simp
    obtain loop r where lp:
      "training_epochs c cfg (num_train_epochs bk) first_epoch w1 g = (loop, r)"
      by (cases "training_epochs c cfg (num_train_epochs bk) first_epoch w1 g")
    show ?thesis
    proof (cases r)
      case (Inl e)
      with bk ar lp have "main workspace cfg acc c w =
         (startup workspace cfg acc @ construction cfg @ announcement cfg acc
            @ [AutoResume (num_update_steps_per_epoch bk) (Inr (g, first_epoch))] @ loop,
          Some e)"
        by (simp add: main_def)
      with bk ar lp [unfolded Inl] show ?thesis by (rule loop_raises)
    next
      case (Inr q)
      obtain w2 g' where q: "q = (w2, g')" by (cases q)
      with bk ar lp Inr have "main workspace cfg acc c w =
         (startup workspace cfg acc @ construction cfg @ announcement cfg acc
            @ [AutoResume (num_update_steps_per_epoch bk) (Inr (g, first_epoch))] @ loop
            @ finish cfg acc g',
          None)"
        by (simp add: main_def)
      with bk ar lp [unfolded Inr q] show ?thesis by (rule completes)
    qed
  qed
qed

lemma training_epochs_events:
  "training_epochs c cfg n fe w g = (loop, r) \<Longrightarrow> list_all loop_event loop"
  using epoch_loop_events [of c cfg n "py_range fe n" w g]
  by (simp add: training_epochs_def)


lemma loop_event_other:
  assumes "loop_event ev"
  shows "\<not> primary_only ev" and "\<not> final_artifact ev" and "ev \<noteq> WaitForEveryone"
    and "ev \<noteq> EmaCopyTo"
  using assms by (cases ev; simp)+

lemma filter_loop_events:
  assumes "list_all loop_event loop"
  shows "filter primary_only loop = []"
    and "filter final_artifact loop = []"
    and "filter (\<lambda>ev. \<not> primary_only ev) loop = loop"
    and "WaitForEveryone \<notin> set loop"
    and "EmaCopyTo \<notin> set loop"
  using assms loop_event_other by (auto simp: list_all_iff filter_empty_conv filter_id_conv)



lemma construction_filters:
  "filter primary_only (construction cfg) = []"
  "filter (\<lambda>ev. \<not> primary_only ev) (construction cfg) = construction cfg"
  "filter final_artifact (construction cfg) = []"
  "filter loop_event (construction cfg) = []"
  "train_calls (construction cfg) = []"
  "epochs_started (construction cfg) = []"
  "WaitForEveryone \<notin> set (construction cfg)"
  "EmaCopyTo \<notin> set (construction cfg)"
  "take 1 (construction cfg) = [LoadTokenizer]"
  by (simp_all add: construction_def)

lemma announcement_filters:
  "filter primary_only (announcement cfg acc) = []"
  "filter (\<lambda>ev. \<not> primary_only ev) (announcement cfg acc) = announcement cfg acc"
  "filter final_artifact (announcement cfg acc) = []"
  "filter loop_event (announcement cfg acc) = []"
  "train_calls (announcement cfg acc) = []"
  "epochs_started (announcement cfg acc) = []"
  "WaitForEveryone \<notin> set (announcement cfg acc)"
  "EmaCopyTo \<notin> set (announcement cfg acc)"
  by (simp_all add: announcement_def)

lemma startup_filters:
  "filter final_artifact (startup workspace cfg acc) = []"
  "filter loop_event (startup workspace cfg acc) = []"
  "train_calls (startup workspace cfg acc) = []"
  "epochs_started (startup workspace cfg acc) = []"
  "EmaCopyTo \<notin> set (startup workspace cfg acc)"
  by (simp_all add: startup_def split: option.split)

lemma startup_barrier:
  "\<exists>pre. startup workspace cfg acc = pre @ [WaitForEveryone]
     \<and> WaitForEveryone \<notin> set pre
     \<and> filter primary_only pre = filter primary_only (startup workspace cfg acc)
     \<and> filter final_artifact pre = []
     \<and> filter loop_event pre = []"
proof -
  define pre where "pre =
     [TorchHubSetDir (workspace @ ''/models/hub'')]
     @ (if enable_tf32 cfg then [AllowTF32] else [])
     @ [CudnnBenchmark,
        Makedirs (output_dir cfg),
        CreateAccelerator (gradient_accumulation_steps cfg) (mixed_precision cfg)
          (if enable_wandb cfg then ''wandb'' else ''tensorboard'') (output_dir cfg) ''logs'',
        SetupLogger ''ARModel'' ''INFO''
          (output_dir cfg @ ''/log'' @ str_nat (process_index acc) @ ''.txt'')]
     @ (if is_main_process acc
        then [InitTrackers (experiment_name cfg),
              LoggerInfo (SavingConfigTo (output_dir cfg) ''config.yaml''),
              SaveConfig (output_dir cfg) ''config.yaml'',
              LoggerInfo ConfigDump]
        else [])
     @ (case seed cfg of None \<Rightarrow> [] | Some s \<Rightarrow> [SetSeed s])"
  have "startup workspace cfg acc = pre @ [WaitForEveryone]"
    by (simp add: startup_def pre_def)
  moreover have "WaitForEveryone \<notin> set pre"
    by (simp add: pre_def split: option.split)
  moreover have "filter primary_only pre = filter primary_only (startup workspace cfg acc)"
    by (simp add: startup_def pre_def)
  moreover have "filter final_artifact pre = []" "filter loop_event pre = []"
    by (simp_all add: pre_def split: option.split)
  ultimately show ?thesis by blast
qed




lemma epoch_loop_inputs:
  assumes mono: "\<forall>w g w' g'. train_one_epoch_generator c w g = Inr (w', g') \<longrightarrow> g \<le> g'"
  shows "S \<le> g \<Longrightarrow>
     list_all (\<lambda>(gi, r). S \<le> gi) (train_calls (fst (epoch_loop c cfg n es w g)))"
proof (induction es arbitrary: w g)
  case Nil
  show ?case by simp
next
  case (Cons ce es)
  show ?case
  proof (cases rule: epoch_loop_cases [where c = c and w = w and g = g and cfg = cfg])
    case (raise e)
    show ?thesis
      using Cons.prems by (simp add: epoch_loop_raise [OF raise] del: epoch_loop.simps)
  next
    case (break w' g')
    show ?thesis
      using Cons.prems by (simp add: epoch_loop_break [OF break] del: epoch_loop.simps)
  next
    case (continue w' g')
    from mono continue(1) have "g \<le> g'" by blast
    with Cons.prems have "S \<le> g'" by simp
    then have "list_all (\<lambda>(gi, r). S \<le> gi)
        (train_calls (fst (epoch_loop c cfg n es w' g')))"
      by (rule Cons.IH)
    then show ?thesis
      using Cons.prems by (simp add: epoch_loop_continue [OF continue] del: epoch_loop.simps)
  qed
qed

lemma epoch_loop_started:
  "epochs_started (fst (epoch_loop c cfg n es w g))
     = take (length (train_calls (fst (epoch_loop c cfg n es w g)))) es"
proof (induction es arbitrary: w g)
  case Nil
  show ?case by simp
next
  case (Cons ce es)
  show ?case
  proof (cases rule: epoch_loop_cases [where c = c and w = w and g = g and cfg = cfg])
    case (raise e)
    show ?thesis by (simp add: epoch_loop_raise [OF raise] del: epoch_loop.simps)
  next
    case (break w' g')
    show ?thesis by (simp add: epoch_loop_break [OF break] del: epoch_loop.simps)
  next
    case (continue w' g')
    show ?thesis
      using Cons.IH [of w' g']
      by (simp add: epoch_loop_continue [OF continue] del: epoch_loop.simps)
  qed
qed

lemma bookkeeping_updates_nonzero:
  assumes "epoch_bookkeeping cfg acc = Inr bk"
  shows "num_update_steps_per_epoch bk \<noteq> 0"
  using assms
  by (auto simp: epoch_bookkeeping_def ceil_truediv_zero Let_def split: sum.splits)

lemma main_resumed:
  assumes bk: "epoch_bookkeeping cfg acc = Inr bk"
    and ar: "auto_resume c w (num_update_steps_per_epoch bk) = Inr (w1, S, first_epoch)"
    and mono: "\<forall>w g w' g'. train_one_epoch_generator c w g = Inr (w', g') \<longrightarrow> g \<le> g'"
  shows "AutoResume (num_update_steps_per_epoch bk) (Inr (S, first_epoch))
           \<in> set (fst (main workspace cfg acc c w))"
    and "epochs_started (fst (main workspace cfg acc c w))
           = take (length (train_calls (fst (main workspace cfg acc c w))))
               (py_range first_epoch (num_train_epochs bk))"
    and "list_all (\<lambda>(gi, r). S \<le> gi) (train_calls (fst (main workspace cfg acc c w)))"
proof -
  let ?loop = "fst (training_epochs c cfg (num_train_epochs bk) first_epoch w1 S)"
  have tr: "\<exists>fin. fst (main workspace cfg acc c w) =
      startup workspace cfg acc @ construction cfg @ announcement cfg acc
        @ [AutoResume (num_update_steps_per_epoch bk) (Inr (S, first_epoch))] @ ?loop @ fin
      \<and> train_calls fin = [] \<and> epochs_started fin = []"
  proof (cases "training_epochs c cfg (num_train_epochs bk) first_epoch w1 S")
    case (Pair loop r)
    show ?thesis
    proof (cases r)
      case (Inl e)
      with bk ar Pair show ?thesis by (simp add: main_def)
    next
      case (Inr q)
      obtain w2 g' where "q = (w2, g')" by (cases q)
      with bk ar Pair Inr have "fst (main workspace cfg acc c w) =
        startup workspace cfg acc @ construction cfg @ announcement cfg acc
          @ [AutoResume (num_update_steps_per_epoch bk) (Inr (S, first_epoch))] @ ?loop
          @ finish cfg acc g'"
        by (simp add: main_def)
      moreover have "train_calls (finish cfg acc g') = []"
        "epochs_started (finish cfg acc g') = []"
        by (simp_all add: finish_def final_export_def)
      ultimately show ?thesis by blast
    qed
  qed
  then obtain fin where fin: "fst (main workspace cfg acc c w) =
      startup workspace cfg acc @ construction cfg @ announcement cfg acc
        @ [AutoResume (num_update_steps_per_epoch bk) (Inr (S, first_epoch))] @ ?loop @ fin"
    and calls: "train_calls fin = []" and started: "epochs_started fin = []"
    by blast
  show "AutoResume (num_update_steps_per_epoch bk) (Inr (S, first_epoch))
           \<in> set (fst (main workspace cfg acc c w))"
    by (simp add: fin)
  have c1: "train_calls (fst (main workspace cfg acc c w)) = train_calls ?loop"
    by (simp add: fin calls startup_filters construction_filters announcement_filters)
  have c2: "epochs_started (fst (main workspace cfg acc c w)) = epochs_started ?loop"
    by (simp add: fin started startup_filters construction_filters announcement_filters)
  show "epochs_started (fst (main workspace cfg acc c w))
           = take (length (train_calls (fst (main workspace cfg acc c w))))
               (py_range first_epoch (num_train_epochs bk))"
    unfolding c1 c2 training_epochs_def by (rule epoch_loop_started)
  have "S \<le> S" by simp
  then show "list_all (\<lambda>(gi, r). S \<le> gi) (train_calls (fst (main workspace cfg acc c w)))"
    unfolding c1 training_epochs_def by (rule epoch_loop_inputs [OF mono])
qed

lemma scenario_run:
  "main [] scenario_config (scenario_accelerator True 0)
     (example_collaborators scenario_config) NoCheckpoint =
   ([TorchHubSetDir ''/models/hub'', AllowTF32, CudnnBenchmark, Makedirs ''out'',
     CreateAccelerator 5 ''bf16'' ''tensorboard'' ''out'' ''logs'',
     SetupLogger ''ARModel'' ''INFO'' ''out/log0.txt'',
     InitTrackers ''alitok_ar'', LoggerInfo (SavingConfigTo ''out'' ''config.yaml''),
     SaveConfig ''out'' ''config.yaml'', LoggerInfo ConfigDump, SetSeed 42,
     WaitForEveryone,
     LoadTokenizer, CreateModelAndLossModule, CreateOptimizer, CreateLrScheduler,
     CreateDataloader, LoggerInfo PreparingModel, Prepare False, EmaToDevice,
     LoggerInfo RunningTraining, LoggerInfo (NumTrainingSteps 3),
     LoggerInfo (GradientAccumulationSteps 5), LoggerInfo (InstantaneousBatchSize 10),
     LoggerInfo (TotalTrainBatchSize 100), AutoResume 10 (Inr (0, 0)),
     AcceleratorPrint (EpochStarted 0 0), TrainOneEpochGenerator 0 (Inr 3),
     AcceleratorPrint (FinishingTraining 3 3),
     WaitForEveryone, SaveCheckpoint 3,
     UnwrapModel, EmaCopyTo, SavePretrainedWeight ''out'' EmaShadow, EndTraining],
    None)"
  by code_simp

lemma long_bookkeeping:
  "epoch_bookkeeping long_config (scenario_accelerator p r) =
     Inr \<lparr>total_batch_size_without_accum = 20, num_batches = 50,
          num_update_steps_per_epoch = 10, num_train_epochs = 3\<rparr>"
  by (simp add: epoch_bookkeeping_def scenario_divisions long_config_def scenario_config_def
      scenario_accelerator_def)

lemma example_collaborators_monotone:
  "\<forall>w g w' g'. train_one_epoch_generator (example_collaborators cfg) w g = Inr (w', g')
     \<longrightarrow> g \<le> g'"
  by (auto simp: example_collaborators_def steady_epoch_def)

lemma resumed_run:
  "main [] long_config (scenario_accelerator True 0)
     (example_collaborators long_config) (Checkpoint 13) =
   ([TorchHubSetDir ''/models/hub'', AllowTF32, CudnnBenchmark, Makedirs ''out'',
     CreateAccelerator 5 ''bf16'' ''tensorboard'' ''out'' ''logs'',
     SetupLogger ''ARModel'' ''INFO'' ''out/log0.txt'',
     InitTrackers ''alitok_ar'', LoggerInfo (SavingConfigTo ''out'' ''config.yaml''),
     SaveConfig ''out'' ''config.yaml'', LoggerInfo ConfigDump, SetSeed 42,
     WaitForEveryone,
     LoadTokenizer, CreateModelAndLossModule, CreateOptimizer, CreateLrScheduler,
     CreateDataloader, LoggerInfo PreparingModel, Prepare False, EmaToDevice,
     LoggerInfo RunningTraining, LoggerInfo (NumTrainingSteps 25),
     LoggerInfo (GradientAccumulationSteps 5), LoggerInfo (InstantaneousBatchSize 10),
     LoggerInfo (TotalTrainBatchSize 100), AutoResume 10 (Inr (13, 1)),
     AcceleratorPrint (EpochStarted 1 2), TrainOneEpochGenerator 13 (Inr 23),
     AcceleratorPrint (EpochStarted 2 2), TrainOneEpochGenerator 23 (Inr 25),
     AcceleratorPrint (FinishingTraining 25 25),
     WaitForEveryone, SaveCheckpoint 25,
     UnwrapModel, EmaCopyTo, SavePretrainedWeight ''out'' EmaShadow, EndTraining],
    None)"
  by code_simp

subsection \<open>Resuming\<close>

text \<open>
  C2. With the resolver of the specification as \<^verbatim>\<open>auto_resume\<close> and a step loop that never
  lowers \<open>global_step\<close>: when there is no checkpoint, the resolver returns
  \<open>(global_step, first_epoch) = (0, 0)\<close> and the epochs that \<^verbatim>\<open>main\<close> runs are the first of
  \<^verbatim>\<open>range(0, num_train_epochs)\<close>; when there is a checkpoint saved at \<open>global_step = S\<close>, the
  resolver returns \<open>first_epoch = S // num_update_steps_per_epoch\<close>, the epochs that
  \<^verbatim>\<open>main\<close> runs are the first of \<^verbatim>\<open>range(first_epoch, num_train_epochs)\<close>, and every call of
  the step loop starts at a \<open>global_step\<close> of at least \<open>S\<close>, so that no update below \<open>S\<close> is
  run again.
\<close>

theorem auto_resume_first_epoch:
  assumes bk: "epoch_bookkeeping cfg acc = Inr bk"
    and ar: "auto_resume c = auto_resume_spec listing restore"
    and mono: "\<forall>w g w' g'. train_one_epoch_generator c w g = Inr (w', g') \<longrightarrow> g \<le> g'"
  shows "(listing w = NoCheckpoint \<longrightarrow>
            auto_resume c w (num_update_steps_per_epoch bk) = Inr (w, 0, 0)
          \<and> AutoResume (num_update_steps_per_epoch bk) (Inr (0, 0))
              \<in> set (fst (main workspace cfg acc c w))
          \<and> epochs_started (fst (main workspace cfg acc c w))
              = take (length (train_calls (fst (main workspace cfg acc c w))))
                  (py_range 0 (num_train_epochs bk)))
       \<and> (\<forall>S. listing w = Checkpoint S \<longrightarrow>
            auto_resume c w (num_update_steps_per_epoch bk)
              = Inr (restore w, S, S div num_update_steps_per_epoch bk)
          \<and> AutoResume (num_update_steps_per_epoch bk)
               (Inr (S, S div num_update_steps_per_epoch bk))
              \<in> set (fst (main workspace cfg acc c w))
          \<and> epochs_started (fst (main workspace cfg acc c w))
              = take (length (train_calls (fst (main workspace cfg acc c w))))
                  (py_range (S div num_update_steps_per_epoch bk) (num_train_epochs bk))
          \<and> list_all (\<lambda>(gi, r). S \<le> gi)
               (train_calls (fst (main workspace cfg acc c w))))"
proof (intro conjI impI allI)
  assume none: "listing w = NoCheckpoint"
  then show r0: "auto_resume c w (num_update_steps_per_epoch bk) = Inr (w, 0, 0)"
    by (simp add: ar auto_resume_spec_def)
  from main_resumed(1) [OF bk r0 mono]
  show "AutoResume (num_update_steps_per_epoch bk) (Inr (0, 0))
              \<in> set (fst (main workspace cfg acc c w))" .
  from main_resumed(2) [OF bk r0 mono]
  show "epochs_started (fst (main workspace cfg acc c w))
              = take (length (train_calls (fst (main workspace cfg acc c w))))
                  (py_range 0 (num_train_epochs bk))" .
next
  fix S
  assume some: "listing w = Checkpoint S"
  have nz: "num_update_steps_per_epoch bk \<noteq> 0"
    using bk by (rule bookkeeping_updates_nonzero)
  with some show rS: "auto_resume c w (num_update_steps_per_epoch bk)
              = Inr (restore w, S, S div num_update_steps_per_epoch bk)"
    by (simp add: ar auto_resume_spec_def)
  from main_resumed(1) [OF bk rS mono]
  show "AutoResume (num_update_steps_per_epoch bk)
               (Inr (S, S div num_update_steps_per_epoch bk))
              \<in> set (fst (main workspace cfg acc c w))" .
  from main_resumed(2) [OF bk rS mono]
  show "epochs_started (fst (main workspace cfg acc c w))
              = take (length (train_calls (fst (main workspace cfg acc c w))))
                  (py_range (S div num_update_steps_per_epoch bk) (num_train_epochs bk))" .
  from main_resumed(3) [OF bk rS mono]
  show "list_all (\<lambda>(gi, r). S \<le> gi)
               (train_calls (fst (main workspace cfg acc c w)))" .
qed


theorem auto_resume_first_epoch_witness:
  "auto_resume (example_collaborators long_config) (Checkpoint 13) 10
     = Inr (Checkpoint 13, 13, 1)
   \<and> AutoResume 10 (Inr (13, 1))
       \<in> set (fst (main [] long_config (scenario_accelerator True 0)
                (example_collaborators long_config) (Checkpoint 13)))
   \<and> epochs_started (fst (main [] long_config (scenario_accelerator True 0)
                (example_collaborators long_config) (Checkpoint 13))) = [1, 2]
   \<and> list_all (\<lambda>(gi, r). 13 \<le> gi) [(13 :: int, Inr 23 :: error + int), (23, Inr 25)]"
proof -
  have ar: "auto_resume (example_collaborators long_config)
      = auto_resume_spec (\<lambda>w. w) (\<lambda>w. w)"
    by (simp add: example_collaborators_def)
  have calls: "train_calls (fst (main [] long_config (scenario_accelerator True 0)
                (example_collaborators long_config) (Checkpoint 13)))
      = [(13, Inr 23), (23, Inr 25)]"
    by (simp add: resumed_run)
  have range: "py_range 1 3 = [1, 2]"
    by code_simp
  from auto_resume_first_epoch
    [OF long_bookkeeping [of True 0] ar example_collaborators_monotone,
      where w = "Checkpoint 13" and workspace = "[]"]
  show ?thesis
    unfolding calls by (simp add: range)
qed

subsection \<open>The main process\<close>



subsection \<open>The two barriers\<close>

text \<open>
  C6, as the claim states it, fails: the first barrier does not stand immediately before
  training. In the run of the end-to-end scenario, between the first barrier and the
  first call of the step loop \<^verbatim>\<open>main\<close> loads the tokenizer, creates model, optimizer,
  scheduler and dataloader, prepares them, announces the run and resolves the resume
  point.
\<close>

theorem first_barrier_not_immediately_before_training:
  "between_barrier_and_training
     (fst (main [] scenario_config (scenario_accelerator True 0)
        (example_collaborators scenario_config) NoCheckpoint)) =
   [LoadTokenizer, CreateModelAndLossModule, CreateOptimizer, CreateLrScheduler,
    CreateDataloader, LoggerInfo PreparingModel, Prepare False, EmaToDevice,
    LoggerInfo RunningTraining, LoggerInfo (NumTrainingSteps 3),
    LoggerInfo (GradientAccumulationSteps 5), LoggerInfo (InstantaneousBatchSize 10),
    LoggerInfo (TotalTrainBatchSize 100), AutoResume 10 (Inr (0, 0)),
    AcceleratorPrint (EpochStarted 0 0)]"
  by (simp add: scenario_run between_barrier_and_training_def)

lemma no_barrier_in_loop:
  assumes "list_all loop_event loop"
  shows "filter (\<lambda>ev. ev = WaitForEveryone) loop = []"
  using assms loop_event_other(3) by (auto simp: list_all_iff filter_empty_conv)

lemma takeWhile_no_call:
  assumes "train_calls pre = []" and "train_calls loop \<noteq> []"
  shows "takeWhile (\<lambda>ev. train_call ev = []) (pre @ loop @ post)
     = pre @ takeWhile (\<lambda>ev. train_call ev = []) loop"
proof -
  from assms(1) have pre: "\<forall>ev \<in> set pre. train_call ev = []"
    by (induction pre) simp_all
  from assms(2) obtain ev where ev: "ev \<in> set loop" "train_call ev \<noteq> []"
    by (induction loop) auto
  then have "takeWhile (\<lambda>ev. train_call ev = []) (loop @ post)
      = takeWhile (\<lambda>ev. train_call ev = []) loop"
    by (intro takeWhile_append1) simp_all
  with pre show ?thesis
    by (simp add: takeWhile_append2)
qed

text \<open>
  C6, amended. A run of \<^verbatim>\<open>main\<close> that reaches its end is the following sequence of
  calls, with exactly two barriers. The first barrier ends the startup: it follows the
  tracker and configuration work of the main process and the seeding, and it precedes
  the loading of the tokenizer, the creation of model, optimizer, scheduler and
  dataloader, their preparation, the announcement of the run and the call of
  \<^verbatim>\<open>auto_resume\<close>, all of which lie between it and the first epoch: it comes before
  training, not immediately before it. The second barrier follows the epoch loop
  immediately; the final checkpoint is saved right after it, then comes the export of
  the main process, and these are the only events that write the final checkpoint or
  the export.
\<close>

theorem barriers_before_and_after_training:
  assumes "snd (main workspace cfg acc c w) = None"
  shows "\<exists>bk w1 g0 first_epoch loop w2 g.
      epoch_bookkeeping cfg acc = Inr bk
    \<and> auto_resume c w (num_update_steps_per_epoch bk) = Inr (w1, g0, first_epoch)
    \<and> training_epochs c cfg (num_train_epochs bk) first_epoch w1 g0 = (loop, Inr (w2, g))
    \<and> fst (main workspace cfg acc c w) =
        [TorchHubSetDir (workspace @ ''/models/hub'')]
        @ (if enable_tf32 cfg then [AllowTF32] else [])
        @ [CudnnBenchmark,
           Makedirs (output_dir cfg),
           CreateAccelerator (gradient_accumulation_steps cfg) (mixed_precision cfg)
             (if enable_wandb cfg then ''wandb'' else ''tensorboard'') (output_dir cfg) ''logs'',
           SetupLogger ''ARModel'' ''INFO''
             (output_dir cfg @ ''/log'' @ str_nat (process_index acc) @ ''.txt'')]
        @ (if is_main_process acc
           then [InitTrackers (experiment_name cfg),
                 LoggerInfo (SavingConfigTo (output_dir cfg) ''config.yaml''),
                 SaveConfig (output_dir cfg) ''config.yaml'',
                 LoggerInfo ConfigDump]
           else [])
        @ (case seed cfg of None \<Rightarrow> [] | Some s \<Rightarrow> [SetSeed s])
        @ [WaitForEveryone]
        @ [LoadTokenizer, CreateModelAndLossModule, CreateOptimizer, CreateLrScheduler,
           CreateDataloader, LoggerInfo PreparingModel, Prepare (pretokenization cfg \<noteq> [])]
        @ (if use_ema cfg then [EmaToDevice] else [])
        @ [LoggerInfo RunningTraining,
           LoggerInfo (NumTrainingSteps (max_train_steps cfg)),
           LoggerInfo (GradientAccumulationSteps (gradient_accumulation_steps cfg)),
           LoggerInfo (InstantaneousBatchSize (per_gpu_batch_size cfg)),
           LoggerInfo (TotalTrainBatchSize
             (per_gpu_batch_size cfg * num_processes acc * gradient_accumulation_steps cfg)),
           AutoResume (num_update_steps_per_epoch bk) (Inr (g0, first_epoch))]
        @ loop
        @ [WaitForEveryone, SaveCheckpoint g]
        @ (if is_main_process acc
           then UnwrapModel
                # (if use_ema cfg
                   then [EmaCopyTo, SavePretrainedWeight (output_dir cfg) EmaShadow]
                   else [SavePretrainedWeight (output_dir cfg) OwnParameters])
           else [])
        @ [EndTraining]
    \<and> list_all loop_event loop
    \<and> train_calls loop = train_calls (fst (main workspace cfg acc c w))
    \<and> length (filter (\<lambda>ev. ev = WaitForEveryone) (fst (main workspace cfg acc c w))) = 2
    \<and> filter final_artifact (fst (main workspace cfg acc c w)) =
        SaveCheckpoint g
        # (if is_main_process acc
           then UnwrapModel
                # (if use_ema cfg
                   then [EmaCopyTo, SavePretrainedWeight (output_dir cfg) EmaShadow]
                   else [SavePretrainedWeight (output_dir cfg) OwnParameters])
           else [])
    \<and> (train_calls loop \<noteq> [] \<longrightarrow>
         between_barrier_and_training (fst (main workspace cfg acc c w)) =
        [LoadTokenizer, CreateModelAndLossModule, CreateOptimizer, CreateLrScheduler,
           CreateDataloader, LoggerInfo PreparingModel, Prepare (pretokenization cfg \<noteq> [])]
        @ (if use_ema cfg then [EmaToDevice] else [])
        @ [LoggerInfo RunningTraining,
           LoggerInfo (NumTrainingSteps (max_train_steps cfg)),
           LoggerInfo (GradientAccumulationSteps (gradient_accumulation_steps cfg)),
           LoggerInfo (InstantaneousBatchSize (per_gpu_batch_size cfg)),
           LoggerInfo (TotalTrainBatchSize
             (per_gpu_batch_size cfg * num_processes acc * gradient_accumulation_steps cfg)),
           AutoResume (num_update_steps_per_epoch bk) (Inr (g0, first_epoch))]
        @ takeWhile (\<lambda>ev. train_call ev = []) loop)"
proof (cases rule: main_cases [where workspace = workspace and cfg = cfg and acc = acc
      and c = c and w = w])
  case (bookkeeping_raises e)
  with assms show ?thesis by simp
next
  case (resume_raises bk e)
  with assms show ?thesis by simp
next
  case (loop_raises bk w1 g first_epoch loop e)
  with assms show ?thesis by simp
next
  case (completes bk w1 g0 first_epoch loop w2 g)
  from completes(3) have loop: "list_all loop_event loop"
    by (rule training_epochs_events)
  have trace: "fst (main workspace cfg acc c w) =
        [TorchHubSetDir (workspace @ ''/models/hub'')]
        @ (if enable_tf32 cfg then [AllowTF32] else [])
        @ [CudnnBenchmark,
           Makedirs (output_dir cfg),
           CreateAccelerator (gradient_accumulation_steps cfg) (mixed_precision cfg)
             (if enable_wandb cfg then ''wandb'' else ''tensorboard'') (output_dir cfg) ''logs'',
           SetupLogger ''ARModel'' ''INFO''
             (output_dir cfg @ ''/log'' @ str_nat (process_index acc) @ ''.txt'')]
        @ (if is_main_process acc
           then [InitTrackers (experiment_name cfg),
                 LoggerInfo (SavingConfigTo (output_dir cfg) ''config.yaml''),
                 SaveConfig (output_dir cfg) ''config.yaml'',
                 LoggerInfo ConfigDump]
           else [])
        @ (case seed cfg of None \<Rightarrow> [] | Some s \<Rightarrow> [SetSeed s])
        @ [WaitForEveryone]
        @ [LoadTokenizer, CreateModelAndLossModule, CreateOptimizer, CreateLrScheduler,
           CreateDataloader, LoggerInfo PreparingModel, Prepare (pretokenization cfg \<noteq> [])]
        @ (if use_ema cfg then [EmaToDevice] else [])
        @ [LoggerInfo RunningTraining,
           LoggerInfo (NumTrainingSteps (max_train_steps cfg)),
           LoggerInfo (GradientAccumulationSteps (gradient_accumulation_steps cfg)),
           LoggerInfo (InstantaneousBatchSize (per_gpu_batch_size cfg)),
           LoggerInfo (TotalTrainBatchSize
             (per_gpu_batch_size cfg * num_processes acc * gradient_accumulation_steps cfg)),
           AutoResume (num_update_steps_per_epoch bk) (Inr (g0, first_epoch))]
        @ loop
        @ [WaitForEveryone, SaveCheckpoint g]
        @ (if is_main_process acc
           then UnwrapModel
                # (if use_ema cfg
                   then [EmaCopyTo, SavePretrainedWeight (output_dir cfg) EmaShadow]
                   else [SavePretrainedWeight (output_dir cfg) OwnParameters])
           else [])
        @ [EndTraining]"
    by (simp add: completes(4) startup_def construction_def announcement_def finish_def
        final_export_def)
  have calls: "train_calls loop = train_calls (fst (main workspace cfg acc c w))"
    by (simp add: completes(4) startup_filters construction_filters announcement_filters
        finish_def final_export_def)
  have barriers:
    "length (filter (\<lambda>ev. ev = WaitForEveryone) (fst (main workspace cfg acc c w))) = 2"
    unfolding trace using no_barrier_in_loop [OF loop]
    by (simp split: option.split)
  have artifacts: "filter final_artifact (fst (main workspace cfg acc c w)) =
        SaveCheckpoint g
        # (if is_main_process acc
           then UnwrapModel
                # (if use_ema cfg
                   then [EmaCopyTo, SavePretrainedWeight (output_dir cfg) EmaShadow]
                   else [SavePretrainedWeight (output_dir cfg) OwnParameters])
           else [])"
    unfolding trace using filter_loop_events(2) [OF loop]
    by (simp split: option.split)
  have between: "between_barrier_and_training (fst (main workspace cfg acc c w)) =
        [LoadTokenizer, CreateModelAndLossModule, CreateOptimizer, CreateLrScheduler,
           CreateDataloader, LoggerInfo PreparingModel, Prepare (pretokenization cfg \<noteq> [])]
        @ (if use_ema cfg then [EmaToDevice] else [])
        @ [LoggerInfo RunningTraining,
           LoggerInfo (NumTrainingSteps (max_train_steps cfg)),
           LoggerInfo (GradientAccumulationSteps (gradient_accumulation_steps cfg)),
           LoggerInfo (InstantaneousBatchSize (per_gpu_batch_size cfg)),
           LoggerInfo (TotalTrainBatchSize
             (per_gpu_batch_size cfg * num_processes acc * gradient_accumulation_steps cfg)),
           AutoResume (num_update_steps_per_epoch bk) (Inr (g0, first_epoch))]
        @ takeWhile (\<lambda>ev. train_call ev = []) loop"
    if started: "train_calls loop \<noteq> []"
  proof -
    obtain pre where pre: "startup workspace cfg acc = pre @ [WaitForEveryone]"
      and pre_barrier: "WaitForEveryone \<notin> set pre"
      using startup_barrier by blast
    let ?build = "construction cfg @ announcement cfg acc
       @ [AutoResume (num_update_steps_per_epoch bk) (Inr (g0, first_epoch))]"
    have "fst (main workspace cfg acc c w) =
        pre @ WaitForEveryone # (?build @ loop @ finish cfg acc g)"
      by (simp add: completes(4) pre)
    moreover from pre_barrier have "\<forall>ev \<in> set pre. ev \<noteq> WaitForEveryone"
      by blast
    ultimately have "drop 1 (dropWhile (\<lambda>ev. ev \<noteq> WaitForEveryone)
          (fst (main workspace cfg acc c w))) = ?build @ loop @ finish cfg acc g"
      by (simp add: dropWhile_append3)
    moreover have "train_calls ?build = []"
      by (simp add: construction_filters announcement_filters)
    ultimately have "between_barrier_and_training (fst (main workspace cfg acc c w))
        = ?build @ takeWhile (\<lambda>ev. train_call ev = []) loop"
      unfolding between_barrier_and_training_def
      using takeWhile_no_call [OF _ started, of ?build "finish cfg acc g"] by simp
    then show ?thesis
      by (simp add: construction_def announcement_def)
  qed
  from completes(1,2,3) trace loop calls barriers artifacts between
  show ?thesis by blast
qed

theorem barriers_before_and_after_training_witness:
  "snd (main [] scenario_config (scenario_accelerator True 0)
        (example_collaborators scenario_config) NoCheckpoint) = None
   \<and> length (filter (\<lambda>ev. ev = WaitForEveryone)
        (fst (main [] scenario_config (scenario_accelerator True 0)
           (example_collaborators scenario_config) NoCheckpoint))) = 2
   \<and> filter final_artifact
        (fst (main [] scenario_config (scenario_accelerator True 0)
           (example_collaborators scenario_config) NoCheckpoint)) =
       [SaveCheckpoint 3, UnwrapModel, EmaCopyTo, SavePretrainedWeight ''out'' EmaShadow]
   \<and> take 12 (fst (main [] scenario_config (scenario_accelerator True 0)
           (example_collaborators scenario_config) NoCheckpoint)) =
       [TorchHubSetDir ''/models/hub'', AllowTF32, CudnnBenchmark, Makedirs ''out'',
        CreateAccelerator 5 ''bf16'' ''tensorboard'' ''out'' ''logs'',
        SetupLogger ''ARModel'' ''INFO'' ''out/log0.txt'',
        InitTrackers ''alitok_ar'', LoggerInfo (SavingConfigTo ''out'' ''config.yaml''),
        SaveConfig ''out'' ''config.yaml'', LoggerInfo ConfigDump, SetSeed 42,
        WaitForEveryone]"
proof -
  let ?run = "main [] scenario_config (scenario_accelerator True 0)
        (example_collaborators scenario_config) NoCheckpoint"
  have completed: "snd ?run = None"
    by (simp add: scenario_run)
  from barriers_before_and_after_training [OF completed]
  have "\<exists>g. length (filter (\<lambda>ev. ev = WaitForEveryone) (fst ?run)) = 2
      \<and> filter final_artifact (fst ?run) =
        SaveCheckpoint g
        # (if is_main_process (scenario_accelerator True 0)
           then UnwrapModel
                # (if use_ema scenario_config
                   then [EmaCopyTo, SavePretrainedWeight (output_dir scenario_config) EmaShadow]
                   else [SavePretrainedWeight (output_dir scenario_config) OwnParameters])
           else [])"
    by (elim exE conjE) (intro exI conjI; assumption)
  then obtain g where
    barriers: "length (filter (\<lambda>ev. ev = WaitForEveryone) (fst ?run)) = 2"
    and artifacts: "filter final_artifact (fst ?run) =
        SaveCheckpoint g
        # (if is_main_process (scenario_accelerator True 0)
           then UnwrapModel
                # (if use_ema scenario_config
                   then [EmaCopyTo, SavePretrainedWeight (output_dir scenario_config) EmaShadow]
                   else [SavePretrainedWeight (output_dir scenario_config) OwnParameters])
           else [])"
    by blast
  from artifacts have g: "g = 3"
    by (simp add: scenario_run)
  have start: "take 12 (fst ?run) =
       [TorchHubSetDir ''/models/hub'', AllowTF32, CudnnBenchmark, Makedirs ''out'',
        CreateAccelerator 5 ''bf16'' ''tensorboard'' ''out'' ''logs'',
        SetupLogger ''ARModel'' ''INFO'' ''out/log0.txt'',
        InitTrackers ''alitok_ar'', LoggerInfo (SavingConfigTo ''out'' ''config.yaml''),
        SaveConfig ''out'' ''config.yaml'', LoggerInfo ConfigDump, SetSeed 42,
        WaitForEveryone]"
    by (simp add: scenario_run)
  from artifacts g have "filter final_artifact (fst ?run) =
       [SaveCheckpoint 3, UnwrapModel, EmaCopyTo, SavePretrainedWeight ''out'' EmaShadow]"
    by (simp add: scenario_config_def scenario_accelerator_def)
  with completed barriers start show ?thesis
    by simp
qed

subsection \<open>The EMA weights\<close>








subsection \<open>Resuming after the last epoch\<close>

text \<open>
  C10. When \<^verbatim>\<open>auto_resume\<close> returns a \<open>first_epoch\<close> that is not below \<open>num_train_epochs\<close>,
  the epoch loop runs no epoch and calls the step loop not once; \<^verbatim>\<open>main\<close> goes on to the
  second barrier, saves the final checkpoint at the resumed \<open>global_step\<close>, exports the
  weights on the main process, and returns.
\<close>

theorem resume_past_last_epoch:
  assumes "epoch_bookkeeping cfg acc = Inr bk"
    and "auto_resume c w (num_update_steps_per_epoch bk) = Inr (w1, g, first_epoch)"
    and "num_train_epochs bk \<le> first_epoch"
  shows "main workspace cfg acc c w =
      (startup workspace cfg acc @ construction cfg @ announcement cfg acc
         @ [AutoResume (num_update_steps_per_epoch bk) (Inr (g, first_epoch)),
            WaitForEveryone, SaveCheckpoint g]
         @ (if is_main_process acc
            then UnwrapModel
                 # (if use_ema cfg
                    then [EmaCopyTo, SavePretrainedWeight (output_dir cfg) EmaShadow]
                    else [SavePretrainedWeight (output_dir cfg) OwnParameters])
            else [])
         @ [EndTraining],
       None)
    \<and> train_calls (fst (main workspace cfg acc c w)) = []
    \<and> epochs_started (fst (main workspace cfg acc c w)) = []"
proof -
  have loop: "training_epochs c cfg (num_train_epochs bk) first_epoch w1 g = ([], Inr (w1, g))"
    using assms(3) by (simp add: training_epochs_def py_range_empty)
  have run: "main workspace cfg acc c w =
      (startup workspace cfg acc @ construction cfg @ announcement cfg acc
         @ [AutoResume (num_update_steps_per_epoch bk) (Inr (g, first_epoch)),
            WaitForEveryone, SaveCheckpoint g]
         @ (if is_main_process acc
            then UnwrapModel
                 # (if use_ema cfg
                    then [EmaCopyTo, SavePretrainedWeight (output_dir cfg) EmaShadow]
                    else [SavePretrainedWeight (output_dir cfg) OwnParameters])
            else [])
         @ [EndTraining],
       None)"
    using assms(1,2) loop by (simp add: main_def finish_def final_export_def)
  show ?thesis
    unfolding run
    by (simp add: run startup_filters construction_filters announcement_filters)
qed


lemma late_resume:
  "auto_resume (example_collaborators long_config) (Checkpoint 30) 10
     = Inr (Checkpoint 30, 30, 3)"
  by (simp add: example_collaborators_def auto_resume_spec_def)

theorem resume_past_last_epoch_witness:
  "snd (main [] long_config (scenario_accelerator True 0)
          (example_collaborators long_config) (Checkpoint 30)) = None
   \<and> train_calls (fst (main [] long_config (scenario_accelerator True 0)
          (example_collaborators long_config) (Checkpoint 30))) = []
   \<and> drop 25 (fst (main [] long_config (scenario_accelerator True 0)
          (example_collaborators long_config) (Checkpoint 30))) =
       [AutoResume 10 (Inr (30, 3)), WaitForEveryone, SaveCheckpoint 30, UnwrapModel,
        EmaCopyTo, SavePretrainedWeight ''out'' EmaShadow, EndTraining]"
proof -
  have bk: "epoch_bookkeeping long_config (scenario_accelerator True 0) =
     Inr \<lparr>total_batch_size_without_accum = 20, num_batches = 50,
          num_update_steps_per_epoch = 10, num_train_epochs = 3\<rparr>"
    by (rule long_bookkeeping)
  have ar: "auto_resume (example_collaborators long_config) (Checkpoint 30)
      (num_update_steps_per_epoch \<lparr>total_batch_size_without_accum = 20, num_batches = 50,
          num_update_steps_per_epoch = 10, num_train_epochs = 3\<rparr>)
     = Inr (Checkpoint 30, 30, 3)"
    by (simp add: late_resume)
  have le: "num_train_epochs \<lparr>total_batch_size_without_accum = 20, num_batches = 50,
          num_update_steps_per_epoch = 10, num_train_epochs = 3\<rparr> \<le> 3"
    by simp
  from resume_past_last_epoch [OF bk ar le, where workspace = "[]"]
  show ?thesis
    by (simp add: startup_def construction_def announcement_def long_config_def
        scenario_config_def scenario_accelerator_def)
qed

section \<open>Properties of the logger\<close>

subsection \<open>The colourful formatter\<close>

lemma colorful_formatter_eq:
  "colorful_formatter name =
     ColorfulFormatter (ESC # ''[32m[%(asctime)s %(name)s]: '' @ ESC # ''[0m%(message)s'')
       ''%m/%d %H:%M:%S'' (name @ ''.'') (name @ ''..'')"
  by (simp add: colorful_formatter_def ColorfulFormatter_init_def colored_def fmt_str_def
      RESET_def str_nat.simps)

lemma percent_format_colorful:
  "percent_format (ESC # ''[32m[%(asctime)s %(name)s]: '' @ ESC # ''[0m%(message)s'')
     (record_dict r) =
   Inr (ESC # ''[32m['' @ asctime r @ '' '' @ record_name r @ '']: '' @ ESC # ''[0m''
        @ message r)"
  by (simp add: record_dict_def ESC_def)

lemma colored_green:
  "colored text Green [] = ESC # ''[32m'' @ text @ ESC # ''[0m''"
  by (simp add: colored_def fmt_str_def RESET_def str_nat.simps)

text \<open>
  C7. With the formatter that \<^verbatim>\<open>setup_logger\<close> builds for a name, \<^verbatim>\<open>formatMessage\<close> renders
  every record as the green bracket with time and name followed by the message, as it
  stands. A record of level \<^verbatim>\<open>WARNING\<close> gets the marker \<^verbatim>\<open>WARNING\<close> in red with the blink
  attribute (code 5) and a space in front; a record of level \<^verbatim>\<open>ERROR\<close> or \<^verbatim>\<open>CRITICAL\<close>
  gets the marker \<^verbatim>\<open>ERROR\<close> in red with the blink and underline attributes (codes 5 and
  4); a record of any other level, \<^verbatim>\<open>INFO\<close> and \<^verbatim>\<open>DEBUG\<close> among them, gets nothing in
  front. The message of the record is left as it was.
\<close>

theorem formatMessage_markers:
  "formatMessage (colorful_formatter name) r =
     (r\<lparr>record_name := str_replace (record_name r) (name @ ''.'') (name @ ''..'')\<rparr>,
      Inr ((if levelno r = WARNING then colored ''WARNING'' Red [Blink] @ '' ''
            else if levelno r = ERROR \<or> levelno r = CRITICAL
            then colored ''ERROR'' Red [Blink, Underline] @ '' ''
            else [])
           @ colored (''['' @ asctime r @ '' ''
                @ str_replace (record_name r) (name @ ''.'') (name @ ''..'') @ '']: '')
               Green []
           @ message r))
   \<and> message (fst (formatMessage (colorful_formatter name) r)) = message r
   \<and> colored ''WARNING'' Red [Blink] = ESC # ''[5m'' @ ESC # ''[31mWARNING'' @ ESC # ''[0m''
   \<and> colored ''ERROR'' Red [Blink, Underline] =
       ESC # ''[4m'' @ ESC # ''[5m'' @ ESC # ''[31mERROR'' @ ESC # ''[0m''"
proof -
  let ?r = "r\<lparr>record_name := str_replace (record_name r) (name @ ''.'') (name @ ''..'')\<rparr>"
  have base: "Formatter_formatMessage (colorful_formatter name) ?r =
      Inr (colored (''['' @ asctime r @ '' ''
                @ str_replace (record_name r) (name @ ''.'') (name @ ''..'') @ '']: '')
               Green [] @ message r)"
    unfolding Formatter_formatMessage_def colorful_formatter_eq formatter.sel
      percent_format_colorful colored_green
    by simp
  have names: "root_name (colorful_formatter name) = name @ ''.''"
    "abbrev_name (colorful_formatter name) = name @ ''..''"
    by (simp_all add: colorful_formatter_eq)
  have run: "formatMessage (colorful_formatter name) r =
     (?r,
      Inr ((if levelno r = WARNING then colored ''WARNING'' Red [Blink] @ '' ''
            else if levelno r = ERROR \<or> levelno r = CRITICAL
            then colored ''ERROR'' Red [Blink, Underline] @ '' ''
            else [])
           @ colored (''['' @ asctime r @ '' ''
                @ str_replace (record_name r) (name @ ''.'') (name @ ''..'') @ '']: '')
               Green []
           @ message r))"
    unfolding formatMessage_def Let_def names base
    by simp
  have w: "colored ''WARNING'' Red [Blink] =
      ESC # ''[5m'' @ ESC # ''[31mWARNING'' @ ESC # ''[0m''"
    by (simp add: colored_def fmt_str_def RESET_def str_nat.simps)
  have e: "colored ''ERROR'' Red [Blink, Underline] =
       ESC # ''[4m'' @ ESC # ''[5m'' @ ESC # ''[31mERROR'' @ ESC # ''[0m''"
    by (simp add: colored_def fmt_str_def RESET_def str_nat.simps)
  show ?thesis
    unfolding run using w e by simp
qed

subsection \<open>The cache of \<^verbatim>\<open>setup_logger\<close>\<close>





lemma getLogger_cache [simp]:
  "getLogger (s\<lparr>cache := cs\<rparr>) name = getLogger s name"
  by (simp add: getLogger_def)






















end
